theory Spec2Isabelle
  imports Complex_Main
begin

section \<open>The scientific calculator's evaluator (calculator\_logic.py)\<close>

text \<open>
  The class \<open>CalculatorLogic\<close> holds an angle mode and a history list and evaluates a
  user expression with Python's \<open>eval\<close> in a restricted environment. The embedding has
  three layers:
  \<^item> the string helpers of \<open>_preprocess\<close> and \<open>set_angle_mode\<close> (strip, upper, replace,
    the character class of the regular expression);
  \<^item> the fragment of Python's expression language that the permitted characters can
    spell: a tokenizer, a recursive-descent parser following Python's grammar, and an
    evaluator over Python values;
  \<^item> the methods of the class, translated one by one.

  Modelling conventions.
  \<^item> A Python \<open>str\<close> is a \<open>string\<close>; a character is a code point below 256.
  \<^item> A Python \<open>int\<close> is an \<open>int\<close>. A Python \<open>float\<close> is idealised as the \<open>real\<close> it
    denotes: an arithmetic result is not rounded, and there are no infinities or NaN (a
    result beyond the float range is outside the model). The conversion of an \<open>int\<close> to a
    \<open>float\<close> is modelled as it is: it rounds to 53 significant bits and raises
    \<open>OverflowError\<close> beyond the float range.
  \<^item> A raised exception is the value \<open>Raise x\<close>. The third result, \<open>Unmodelled\<close>, says
    that the input leaves the modelled fragment of Python (keywords, exponent or complex
    literals, sequence operators, attributes other than the few listed below, ...); the
    model then makes no statement about the code. The interpreter is CPython with its
    default settings: the conversion of an \<open>int\<close> to text is limited to 4300 digits. The
    recursion depth and the memory are not limited in the model.
\<close>

subsection \<open>Exceptions and results\<close>

datatype exn = ZeroDivisionError | ValueError string | SyntaxError | TypeError | OverflowError

datatype 'a res = Ok 'a | Raise exn | Unmodelled

subsection \<open>Python values and the evaluator object\<close>

text \<open>
  \<open>VBuiltin n\<close> is the builtin function \<open>n\<close> (\<open>abs\<close>, \<open>round\<close>, \<open>pow\<close>, \<open>math.exp\<close>);
  \<open>VMethod m\<close> is the method \<open>m\<close> bound to the evaluator instance (\<open>self._sin\<close> is
  \<open>VMethod ''_sin''\<close>); \<open>VInstance\<close> is the evaluator instance itself; \<open>VClass c\<close> is the
  type object \<open>c\<close>.
\<close>

datatype pyval =
    VInt int
  | VFloat real
  | VStr string
  | VNone
  | VTuple "pyval list"
  | VBuiltin string
  | VMethod string
  | VInstance
  | VClass string

text \<open>
  The instance: \<open>self.angle_mode\<close> (any Python value: the constructor does not check it),
  \<open>self.history\<close>, and the text of the instance's default \<open>repr\<close>
  (\<open><calculator_logic.CalculatorLogic object at 0x...>\<close>), which is fixed for the
  lifetime of the object.
\<close>

record calc =
  angle_mode :: pyval
  history :: "(string \<times> pyval) list"
  obj_repr :: string

definition CalculatorLogic_init :: "calc \<Rightarrow> pyval \<Rightarrow> calc" where
  "CalculatorLogic_init st mode = st\<lparr>angle_mode := mode, history := []\<rparr>"

definition fresh :: calc where
  "fresh = \<lparr>angle_mode = VStr ''DEG'', history = [],
            obj_repr = ''<calculator_logic.CalculatorLogic object at 0x7f3a5c0d2e90>''\<rparr>"

subsection \<open>Strings\<close>

definition is_digit :: "char \<Rightarrow> bool" where
  "is_digit c = (c \<in> set ''0123456789'')"

definition is_alpha :: "char \<Rightarrow> bool" where
  "is_alpha c = (c \<in> set ''abcdefghijklmnopqrstuvwxyzABCDEFGHIJKLMNOPQRSTUVWXYZ'')"

definition is_ident :: "char \<Rightarrow> bool" where
  "is_ident c = (is_alpha c \<or> is_digit c \<or> c = CHR ''_'')"

text \<open>\<open>str.isspace\<close> on code points below 256; the regular expression's \<open>\s\<close> is the same set.\<close>

definition is_space :: "char \<Rightarrow> bool" where
  "is_space c = (let n = (of_char c :: nat)
                 in (9 \<le> n \<and> n \<le> 13) \<or> (28 \<le> n \<and> n \<le> 32) \<or> n = 133 \<or> n = 160)"

definition py_strip :: "string \<Rightarrow> string" where
  "py_strip s = rev (dropWhile is_space (rev (dropWhile is_space s)))"

text \<open>
  \<open>str.upper\<close>: the ASCII letters. (No character outside ASCII has an ASCII capital,
  so the comparison with \<open>DEG\<close> and \<open>RAD\<close> is not affected by leaving those unchanged.)
\<close>

definition upper_char :: "char \<Rightarrow> char" where
  "upper_char c =
     (case map_of (zip ''abcdefghijklmnopqrstuvwxyz'' ''ABCDEFGHIJKLMNOPQRSTUVWXYZ'') c of
        Some u \<Rightarrow> u
      | None \<Rightarrow> c)"

definition py_upper :: "string \<Rightarrow> string" where
  "py_upper s = map upper_char s"

text \<open>\<open>s.replace(old, new)\<close> for a one-character \<open>old\<close>.\<close>

definition py_replace :: "char \<Rightarrow> string \<Rightarrow> string \<Rightarrow> string" where
  "py_replace old new s = concat (map (\<lambda>c. if c = old then new else [c]) s)"

definition digit_val :: "char \<Rightarrow> int" where
  "digit_val c = int (of_char c) - 48"

definition int_of_digits :: "string \<Rightarrow> int" where
  "int_of_digits ds = foldl (\<lambda>a c. 10 * a + digit_val c) 0 ds"

text \<open>The decimal digit \<open>n < 10\<close> as a character.\<close>

definition digit_char :: "nat \<Rightarrow> char" where
  "digit_char n = ''0123456789'' ! n"

function str_nat :: "nat \<Rightarrow> string" where
  "str_nat n = (if n < 10 then [digit_char n] else str_nat (n div 10) @ [digit_char (n mod 10)])"
  by pat_completeness auto
termination
  by (relation "measure id") auto

declare str_nat.simps [simp del]

text \<open>\<open>str(n)\<close> for an \<open>int\<close>.\<close>

definition str_int :: "int \<Rightarrow> string" where
  "str_int n = (if n < 0 then CHR ''-'' # str_nat (nat (- n)) else str_nat (nat n))"

text \<open>Reading a decimal integer back (used to state that \<open>str_int\<close> loses nothing).\<close>

definition int_of_str :: "string \<Rightarrow> int" where
  "int_of_str s = (case s of [] \<Rightarrow> 0
                   | c # cs \<Rightarrow> if c = CHR ''-'' then - int_of_digits cs else int_of_digits s)"

fun join :: "string \<Rightarrow> string list \<Rightarrow> string" where
  "join sep [] = []"
| "join sep [x] = x"
| "join sep (x # y # ys) = x @ sep @ join sep (y # ys)"

subsection \<open>\<open>_preprocess\<close>\<close>

text \<open>The character class \<open>[0-9a-zA-Z_+\-*/%.(),\s]\<close>.\<close>

definition allowed_char :: "char \<Rightarrow> bool" where
  "allowed_char c = (is_digit c \<or> is_alpha c \<or> c \<in> set ''_+-*/%.(),'' \<or> is_space c)"

text \<open>The multiplication sign U+00D7 and the division sign U+00F7.\<close>

definition times_sign :: char where "times_sign = CHR 0xD7"
definition division_sign :: char where "division_sign = CHR 0xF7"

definition preprocess :: "string \<Rightarrow> string" where
  "preprocess expr =
     (let e1 = py_strip expr;
          e2 = py_replace times_sign ''*'' e1;
          e3 = py_replace division_sign ''/'' e2;
          e4 = py_replace (CHR ''^'') ''**'' e3
      in if list_all allowed_char e4 then e4 else ''__INVALID_CHARS__'')"

subsection \<open>Tokens of the Python expression language\<close>

datatype token =
    TInt int | TFloat real | TName string
  | TPlus | TMinus | TStar | TSlash | TPercent | TPow | TFloorDiv
  | TLParen | TRParen | TComma | TDot

definition py_keywords :: "string list" where
  "py_keywords = [''False'', ''None'', ''True'', ''and'', ''as'', ''assert'', ''async'',
     ''await'', ''break'', ''class'', ''continue'', ''def'', ''del'', ''elif'', ''else'',
     ''except'', ''finally'', ''for'', ''from'', ''global'', ''if'', ''import'', ''in'',
     ''is'', ''lambda'', ''nonlocal'', ''not'', ''or'', ''pass'', ''raise'', ''return'',
     ''try'', ''while'', ''with'', ''yield'']"

text \<open>
  CPython (3.11, and the releases of 3.7 to 3.10 since September 2022) converts at most
  \<open>sys.get_int_max_str_digits()\<close> digits between an int and its decimal text, 4300 unless
  the program or the environment changes it, and this program does not.
\<close>

definition max_str_digits :: nat where
  "max_str_digits = 4300"

text \<open>
  A number: digits, optionally a point and more digits (\<open>12\<close>, \<open>1.5\<close>, \<open>1.\<close>, \<open>.5\<close>).
  A letter or underscore right after the digits (an exponent, \<open>j\<close>, \<open>0x\<close>, \<open>1_000\<close>,
  \<open>1if\<close>) is outside the model. A decimal integer with a leading zero other than zero
  itself is a syntax error in Python 3, and so is one of more than 4300 digits. The
  value of a literal with a point is its decimal value; Python takes the float nearest
  to it.
\<close>

definition number_rest :: "string \<Rightarrow> string" where
  "number_rest s =
     (let r1 = dropWhile is_digit s
      in if r1 \<noteq> [] \<and> hd r1 = CHR ''.'' then dropWhile is_digit (tl r1) else r1)"

definition number_token :: "string \<Rightarrow> token res" where
  "number_token s =
     (let ip = takeWhile is_digit s;
          r1 = dropWhile is_digit s;
          isfloat = (r1 \<noteq> [] \<and> hd r1 = CHR ''.'');
          fp = (if isfloat then takeWhile is_digit (tl r1) else []);
          r2 = number_rest s
      in if r2 \<noteq> [] \<and> is_ident (hd r2) then Unmodelled
         else if isfloat then
           Ok (TFloat (of_int (int_of_digits ip) + of_int (int_of_digits fp) / 10 ^ length fp))
         else if 1 < length ip \<and> hd ip = CHR ''0'' \<and> int_of_digits ip \<noteq> 0
           then Raise SyntaxError
         else if max_str_digits < length ip \<and> hd ip \<noteq> CHR ''0'' then Raise SyntaxError
         else Ok (TInt (int_of_digits ip)))"

definition name_token :: "string \<Rightarrow> token res" where
  "name_token s =
     (let nm = takeWhile is_ident s
      in if nm \<in> set py_keywords then Unmodelled else Ok (TName nm))"

definition cons_tok :: "token \<Rightarrow> token list res \<Rightarrow> token list res" where
  "cons_tok t r = (case r of Ok ts \<Rightarrow> Ok (t # ts) | Raise e \<Rightarrow> Raise e | Unmodelled \<Rightarrow> Unmodelled)"

lemma number_rest_le: "length (number_rest s) \<le> length s"
proof -
  let ?r1 = "dropWhile is_digit s"
  have a: "length ?r1 \<le> length s" by (rule length_dropWhile_le)
  have b: "length (dropWhile is_digit (tl ?r1)) \<le> length (tl ?r1)" by (rule length_dropWhile_le)
  have c: "length (tl ?r1) \<le> length ?r1" by simp
  from a b c have "length (dropWhile is_digit (tl ?r1)) \<le> length s" by linarith
  with a show ?thesis by (simp add: number_rest_def Let_def)
qed

lemma number_rest_shorter:
  assumes "is_digit c \<or> (c = CHR ''.'' \<and> cs \<noteq> [] \<and> is_digit (hd cs))"
  shows "length (number_rest (c # cs)) \<le> length cs"
proof (cases "is_digit c")
  case True
  then have "number_rest (c # cs) = number_rest cs" by (simp add: number_rest_def)
  then show ?thesis by (simp add: number_rest_le)
next
  case False
  with assms have d: "c = CHR ''.''" by simp
  have "number_rest (c # cs) = dropWhile is_digit cs"
    using False d by (simp add: number_rest_def)
  then show ?thesis by (simp add: length_dropWhile_le)
qed

text \<open>
  Blanks and tabs separate tokens; any other white space inside the expression
  (a newline, a form feed, a no-break space) is left outside the model.
\<close>

function tokenize :: "string \<Rightarrow> token list res" where
  "tokenize [] = Ok []"
| "tokenize (c # cs) =
    (if c = CHR '' '' \<or> c = CHR 0x09 then tokenize cs
     else if is_digit c \<or> (c = CHR ''.'' \<and> cs \<noteq> [] \<and> is_digit (hd cs)) then
       (case number_token (c # cs) of
          Ok t \<Rightarrow> cons_tok t (tokenize (number_rest (c # cs)))
        | Raise e \<Rightarrow> Raise e
        | Unmodelled \<Rightarrow> Unmodelled)
     else if is_alpha c \<or> c = CHR ''_'' then
       (case name_token (c # cs) of
          Ok t \<Rightarrow> cons_tok t (tokenize (dropWhile is_ident cs))
        | Raise e \<Rightarrow> Raise e
        | Unmodelled \<Rightarrow> Unmodelled)
     else if c = CHR ''*'' \<and> cs \<noteq> [] \<and> hd cs = CHR ''*'' then cons_tok TPow (tokenize (tl cs))
     else if c = CHR ''/'' \<and> cs \<noteq> [] \<and> hd cs = CHR ''/'' then cons_tok TFloorDiv (tokenize (tl cs))
     else if c = CHR ''*'' then cons_tok TStar (tokenize cs)
     else if c = CHR ''/'' then cons_tok TSlash (tokenize cs)
     else if c = CHR ''+'' then cons_tok TPlus (tokenize cs)
     else if c = CHR ''-'' then cons_tok TMinus (tokenize cs)
     else if c = CHR ''%'' then cons_tok TPercent (tokenize cs)
     else if c = CHR ''('' then cons_tok TLParen (tokenize cs)
     else if c = CHR '')'' then cons_tok TRParen (tokenize cs)
     else if c = CHR '','' then cons_tok TComma (tokenize cs)
     else if c = CHR ''.'' then cons_tok TDot (tokenize cs)
     else Unmodelled)"
  by pat_completeness auto
termination
proof (relation "measure length", goal_cases)
  case (3 c cs t)
  then show ?case using number_rest_shorter[of c cs] by (simp add: less_Suc_eq_le)
next
  case (4 c cs t)
  show ?case using length_dropWhile_le[of is_ident cs] by (simp add: less_Suc_eq_le)
qed simp_all

subsection \<open>Syntax trees and the parser\<close>

datatype binop = Add | Sub | Mult | Div | Mod | Power | FloorDiv

datatype unaryop = UAdd | USub

datatype expr =
    IntLit int
  | FloatLit real
  | Name string
  | BinOp expr binop expr
  | UnaryOp unaryop expr
  | Call expr "expr list"
  | Attribute expr string
  | Tuple "expr list"

fun addop :: "token \<Rightarrow> binop option" where
  "addop TPlus = Some Add"
| "addop TMinus = Some Sub"
| "addop _ = None"

fun mulop :: "token \<Rightarrow> binop option" where
  "mulop TStar = Some Mult"
| "mulop TSlash = Some Div"
| "mulop TPercent = Some Mod"
| "mulop TFloorDiv = Some FloorDiv"
| "mulop _ = None"

text \<open>A parenthesised list: one expression without a comma is that expression, anything else a tuple.\<close>

definition mk_group :: "expr list \<Rightarrow> bool \<Rightarrow> expr" where
  "mk_group es comma = (case es of [e] \<Rightarrow> if comma then Tuple es else e | _ \<Rightarrow> Tuple es)"

text \<open>
  Python's grammar, restricted to the tokens above:
  \<^verbatim>\<open>
  items:    arith (',' arith)* [',']
  arith:    term (('+'|'-') term)*
  term:     factor (('*'|'/'|'%'|'//') factor)*
  factor:   ('+'|'-') factor | power
  power:    atom trailer* ['**' factor]
  trailer:  '(' [items] ')' | '.' NAME
  atom:     NAME | NUMBER | '(' [items] ')'
  \<close>
  Each function returns the tree and the unread tokens. Where an operand is expected, a
  star (argument unpacking) or a point (the ellipsis) is outside the model; every other
  unexpected token is a syntax error. The tests \<open>length r < length ts\<close> only make the
  recursion well-founded: a sub-parser that succeeds has read at least one token.
\<close>

function
    p_items :: "token list \<Rightarrow> ((expr list \<times> bool) \<times> token list) res"
and p_arith :: "token list \<Rightarrow> (expr \<times> token list) res"
and p_arith_rest :: "expr \<Rightarrow> token list \<Rightarrow> (expr \<times> token list) res"
and p_term :: "token list \<Rightarrow> (expr \<times> token list) res"
and p_term_rest :: "expr \<Rightarrow> token list \<Rightarrow> (expr \<times> token list) res"
and p_factor :: "token list \<Rightarrow> (expr \<times> token list) res"
and p_power :: "token list \<Rightarrow> (expr \<times> token list) res"
and p_trailers :: "expr \<Rightarrow> token list \<Rightarrow> (expr \<times> token list) res"
and p_atom :: "token list \<Rightarrow> (expr \<times> token list) res"
where
  "p_items ts =
     (case p_arith ts of
        Ok (e, r) \<Rightarrow>
          if r \<noteq> [] \<and> hd r = TComma then
            (if tl r = [] \<or> hd (tl r) = TRParen then Ok (([e], True), tl r)
             else if length (tl r) < length ts then
               (case p_items (tl r) of
                  Ok ((es, c), r2) \<Rightarrow> Ok ((e # es, True), r2)
                | Raise x \<Rightarrow> Raise x
                | Unmodelled \<Rightarrow> Unmodelled)
             else Unmodelled)
          else Ok (([e], False), r)
      | Raise x \<Rightarrow> Raise x
      | Unmodelled \<Rightarrow> Unmodelled)"
| "p_arith ts =
     (case p_term ts of
        Ok (e, r) \<Rightarrow> if length r < length ts then p_arith_rest e r else Unmodelled
      | Raise x \<Rightarrow> Raise x
      | Unmodelled \<Rightarrow> Unmodelled)"
| "p_arith_rest lhs ts =
     (case ts of
        [] \<Rightarrow> Ok (lhs, ts)
      | t # r0 \<Rightarrow>
          (case addop t of
             None \<Rightarrow> Ok (lhs, ts)
           | Some oper \<Rightarrow>
               (case p_term r0 of
                  Ok (e, r) \<Rightarrow>
                    if length r < length r0 then p_arith_rest (BinOp lhs oper e) r else Unmodelled
                | Raise x \<Rightarrow> Raise x
                | Unmodelled \<Rightarrow> Unmodelled)))"
| "p_term ts =
     (case p_factor ts of
        Ok (e, r) \<Rightarrow> if length r < length ts then p_term_rest e r else Unmodelled
      | Raise x \<Rightarrow> Raise x
      | Unmodelled \<Rightarrow> Unmodelled)"
| "p_term_rest lhs ts =
     (case ts of
        [] \<Rightarrow> Ok (lhs, ts)
      | t # r0 \<Rightarrow>
          (case mulop t of
             None \<Rightarrow> Ok (lhs, ts)
           | Some oper \<Rightarrow>
               (case p_factor r0 of
                  Ok (e, r) \<Rightarrow>
                    if length r < length r0 then p_term_rest (BinOp lhs oper e) r else Unmodelled
                | Raise x \<Rightarrow> Raise x
                | Unmodelled \<Rightarrow> Unmodelled)))"
| "p_factor ts =
     (if ts \<noteq> [] \<and> (hd ts = TPlus \<or> hd ts = TMinus) then
        (case p_factor (tl ts) of
           Ok (e, r) \<Rightarrow> Ok (UnaryOp (if hd ts = TPlus then UAdd else USub) e, r)
         | Raise x \<Rightarrow> Raise x
         | Unmodelled \<Rightarrow> Unmodelled)
      else p_power ts)"
| "p_power ts =
     (case p_atom ts of
        Ok (a, r) \<Rightarrow>
          if length r < length ts then
            (case p_trailers a r of
               Ok (e, r1) \<Rightarrow>
                 if r1 \<noteq> [] \<and> hd r1 = TPow then
                   (if length (tl r1) < length ts then
                      (case p_factor (tl r1) of
                         Ok (f, r3) \<Rightarrow> Ok (BinOp e Power f, r3)
                       | Raise x \<Rightarrow> Raise x
                       | Unmodelled \<Rightarrow> Unmodelled)
                    else Unmodelled)
                 else Ok (e, r1)
             | Raise x \<Rightarrow> Raise x
             | Unmodelled \<Rightarrow> Unmodelled)
          else Unmodelled
      | Raise x \<Rightarrow> Raise x
      | Unmodelled \<Rightarrow> Unmodelled)"
| "p_trailers e ts =
     (if ts \<noteq> [] \<and> hd ts = TLParen then
        (if tl ts \<noteq> [] \<and> hd (tl ts) = TRParen then p_trailers (Call e []) (tl (tl ts))
         else
           (case p_items (tl ts) of
              Ok ((es, c), r) \<Rightarrow>
                if r \<noteq> [] \<and> hd r = TRParen then
                  (if length (tl r) < length ts then p_trailers (Call e es) (tl r) else Unmodelled)
                else Raise SyntaxError
            | Raise x \<Rightarrow> Raise x
            | Unmodelled \<Rightarrow> Unmodelled))
      else if ts \<noteq> [] \<and> hd ts = TDot then
        (case tl ts of
           TName a # r \<Rightarrow> p_trailers (Attribute e a) r
         | _ \<Rightarrow> Raise SyntaxError)
      else Ok (e, ts))"
| "p_atom ts =
     (if ts \<noteq> [] \<and> hd ts = TLParen then
        (if tl ts \<noteq> [] \<and> hd (tl ts) = TRParen then Ok (Tuple [], tl (tl ts))
         else
           (case p_items (tl ts) of
              Ok ((es, c), r) \<Rightarrow>
                if r \<noteq> [] \<and> hd r = TRParen then Ok (mk_group es c, tl r)
                else Raise SyntaxError
            | Raise x \<Rightarrow> Raise x
            | Unmodelled \<Rightarrow> Unmodelled))
      else
        (case ts of
           TInt n # r \<Rightarrow> Ok (IntLit n, r)
         | TFloat x # r \<Rightarrow> Ok (FloatLit x, r)
         | TName s # r \<Rightarrow> Ok (Name s, r)
         | TStar # r \<Rightarrow> Unmodelled
         | TPow # r \<Rightarrow> Unmodelled
         | TDot # r \<Rightarrow> Unmodelled
         | _ \<Rightarrow> Raise SyntaxError))"
  by pat_completeness auto
termination
  apply (relation "measure
   (case_sum
     (case_sum (case_sum (\<lambda>ts. 6 * length ts + 5) (\<lambda>ts. 6 * length ts + 4))
               (case_sum (\<lambda>(l, ts). 6 * length ts) (\<lambda>ts. 6 * length ts + 3)))
     (case_sum (case_sum (\<lambda>(l, ts). 6 * length ts) (\<lambda>ts. 6 * length ts + 2))
               (case_sum (\<lambda>ts. 6 * length ts + 1)
                         (case_sum (\<lambda>(e, ts). 6 * length ts) (\<lambda>ts. 6 * length ts)))))")
  apply simp_all
  apply (auto simp: neq_Nil_conv)
  done

declare p_items.simps [simp del] p_arith.simps [simp del] p_arith_rest.simps [simp del]
  p_term.simps [simp del] p_term_rest.simps [simp del] p_factor.simps [simp del]
  p_power.simps [simp del] p_trailers.simps [simp del] p_atom.simps [simp del]

definition parse :: "token list \<Rightarrow> expr res" where
  "parse ts =
     (case p_items ts of
        Ok ((es, c), r) \<Rightarrow> (if r = [] then Ok (mk_group es c) else Raise SyntaxError)
      | Raise x \<Rightarrow> Raise x
      | Unmodelled \<Rightarrow> Unmodelled)"

definition parse_str :: "string \<Rightarrow> expr res" where
  "parse_str s =
     (case tokenize s of Ok ts \<Rightarrow> parse ts | Raise x \<Rightarrow> Raise x | Unmodelled \<Rightarrow> Unmodelled)"

subsection \<open>Numbers\<close>

definition bind_res :: "'a res \<Rightarrow> ('a \<Rightarrow> 'b res) \<Rightarrow> 'b res" where
  "bind_res m f = (case m of Ok v \<Rightarrow> f v | Raise x \<Rightarrow> Raise x | Unmodelled \<Rightarrow> Unmodelled)"

text \<open>\<open>x.is_integer()\<close> and \<open>int(x)\<close> (truncation towards zero) for a float.\<close>

definition is_integer :: "real \<Rightarrow> bool" where
  "is_integer r = (of_int \<lfloor>r\<rfloor> = r)"

definition py_trunc :: "real \<Rightarrow> int" where
  "py_trunc r = (if 0 \<le> r then \<lfloor>r\<rfloor> else \<lceil>r\<rceil>)"

text \<open>\<open>x % y\<close> on floats, for \<open>y \<noteq> 0\<close>: the result has the sign of \<open>y\<close>.\<close>

definition float_mod :: "real \<Rightarrow> real \<Rightarrow> real" where
  "float_mod x y = x - y * of_int \<lfloor>x / y\<rfloor>"

text \<open>Rounding to the nearest integer, ties to the even one (\<open>round(x)\<close>, and the digits of \<open>format\<close>).\<close>

definition round_half_even :: "real \<Rightarrow> int" where
  "round_half_even x =
     (let f = \<lfloor>x\<rfloor>; d = x - of_int f
      in if d < 1 / 2 then f else if 1 / 2 < d then f + 1 else if even f then f else f + 1)"

text \<open>
  The range of a float: zero, and the magnitudes from \<open>2\<^sup>-\<^sup>1\<^sup>0\<^sup>2\<^sup>2\<close> to the largest float,
  \<open>float_max\<close>. A smaller result is subnormal or underflows to zero; a result of magnitude
  \<open>2\<^sup>1\<^sup>0\<^sup>2\<^sup>4\<close> or more overflows, and between \<open>float_max\<close> and \<open>2\<^sup>1\<^sup>0\<^sup>2\<^sup>4\<close> the outcome depends on
  the rounding, which the model does not have. \<open>x ** y\<close>, \<open>math.exp\<close> and the true
  division of two ints raise \<open>OverflowError\<close> on overflow (\<open>float_result\<close>); \<open>+\<close>, \<open>-\<close>, \<open>*\<close>
  and \<open>/\<close> on floats, and a literal, give an infinity, which is not a value of the model
  (\<open>float_value\<close>).
\<close>

definition float_max :: real where
  "float_max = 2 ^ 1024 - 2 ^ 971"

definition float_range :: "real \<Rightarrow> bool" where
  "float_range r = (r = 0 \<or> (1 / 2 ^ 1022 \<le> \<bar>r\<bar> \<and> \<bar>r\<bar> \<le> float_max))"

definition float_result :: "real \<Rightarrow> real res" where
  "float_result r =
     (if float_range r then Ok r
      else if 2 ^ 1024 \<le> \<bar>r\<bar> then Raise OverflowError
      else Unmodelled)"

text \<open>
  \<open>x ** y\<close> on floats. A negative base with a fractional exponent gives a complex number
  in Python 3, which is outside the model.
\<close>

definition float_pow :: "real \<Rightarrow> real \<Rightarrow> real res" where
  "float_pow x y =
     (if x = 0 \<and> y < 0 then Raise ZeroDivisionError
      else if is_integer y then float_result (x powi \<lfloor>y\<rfloor>)
      else if x < 0 then Unmodelled
      else float_result (x powr y))"

text \<open>
  \<open>float(n)\<close> for an int \<open>n\<close>, also when an operator or a \<open>math\<close> function converts its int
  operand: exact below \<open>2\<^sup>5\<^sup>3\<close>; a larger \<open>n\<close> is rounded to 53 significant bits, ties to
  even; \<open>OverflowError\<close> when the rounded value reaches \<open>2\<^sup>1\<^sup>0\<^sup>2\<^sup>4\<close>.
\<close>

function bit_length :: "int \<Rightarrow> nat" where
  "bit_length n = (if n \<le> 0 then 0 else Suc (bit_length (n div 2)))"
  by pat_completeness auto
termination
  by (relation "measure nat") auto

declare bit_length.simps [simp del]

definition round_shift :: "int \<Rightarrow> nat \<Rightarrow> int" where
  "round_shift a s =
     (let q = a div 2 ^ s; r = a mod 2 ^ s
      in if 2 * r < 2 ^ s then q else if 2 ^ s < 2 * r then q + 1
         else if even q then q else q + 1)"

definition float_of_int :: "int \<Rightarrow> real res" where
  "float_of_int n =
     (if \<bar>n\<bar> < 2 ^ 53 then Ok (of_int n)
      else if 2 ^ 1024 \<le> \<bar>n\<bar> then Raise OverflowError
      else (let s = bit_length \<bar>n\<bar> - 53; m = round_shift \<bar>n\<bar> s * 2 ^ s
            in if 2 ^ 1024 \<le> m then Raise OverflowError else Ok (of_int (sgn n * m))))"

text \<open>\<open>float(v)\<close> and \<open>int(v)\<close>. A string argument is parsed by Python; that is outside the model.\<close>

fun py_float :: "pyval \<Rightarrow> real res" where
  "py_float (VInt n) = float_of_int n"
| "py_float (VFloat r) = Ok r"
| "py_float (VStr s) = Unmodelled"
| "py_float _ = Raise TypeError"

fun py_int :: "pyval \<Rightarrow> int res" where
  "py_int (VInt n) = Ok n"
| "py_int (VFloat r) = Ok (py_trunc r)"
| "py_int (VStr s) = Unmodelled"
| "py_int _ = Raise TypeError"

subsection \<open>The function library of the class\<close>

definition to_radians :: "calc \<Rightarrow> real \<Rightarrow> real" where
  "to_radians st x = (if angle_mode st = VStr ''DEG'' then x * pi / 180 else x)"

definition calc_sin :: "calc \<Rightarrow> pyval \<Rightarrow> pyval res" where
  "calc_sin st x = bind_res (py_float x) (\<lambda>r. Ok (VFloat (sin (to_radians st r))))"

definition calc_cos :: "calc \<Rightarrow> pyval \<Rightarrow> pyval res" where
  "calc_cos st x = bind_res (py_float x) (\<lambda>r. Ok (VFloat (cos (to_radians st r))))"

definition calc_tan :: "calc \<Rightarrow> pyval \<Rightarrow> pyval res" where
  "calc_tan st x = bind_res (py_float x) (\<lambda>angle.
     if angle_mode st = VStr ''DEG'' then
       (if \<bar>float_mod angle 180 - 90\<bar> < 1 / 10 ^ 12 then Raise (ValueError ''Domain Error'')
        else Ok (VFloat (tan (to_radians st angle))))
     else
       (if \<bar>float_mod (angle - pi / 2) pi\<bar> < 1 / 10 ^ 12 then Raise (ValueError ''Domain Error'')
        else Ok (VFloat (tan (to_radians st angle)))))"

definition calc_ln :: "pyval \<Rightarrow> pyval res" where
  "calc_ln x = bind_res (py_float x) (\<lambda>r.
     if r \<le> 0 then Raise (ValueError ''Domain Error'') else Ok (VFloat (ln r)))"

definition calc_log10 :: "pyval \<Rightarrow> pyval res" where
  "calc_log10 x = bind_res (py_float x) (\<lambda>r.
     if r \<le> 0 then Raise (ValueError ''Domain Error'') else Ok (VFloat (log 10 r)))"

definition calc_log :: "pyval \<Rightarrow> pyval \<Rightarrow> pyval res" where
  "calc_log x base = bind_res (py_float x) (\<lambda>r. bind_res (py_float base) (\<lambda>b.
     if r \<le> 0 \<or> b \<le> 0 \<or> b = 1 then Raise (ValueError ''Domain Error'')
     else Ok (VFloat (log b r))))"

definition calc_sqrt :: "pyval \<Rightarrow> pyval res" where
  "calc_sqrt x = bind_res (py_float x) (\<lambda>r.
     if r < 0 then Raise (ValueError ''Complex Result'') else Ok (VFloat (sqrt r)))"

definition calc_root :: "pyval \<Rightarrow> pyval \<Rightarrow> pyval res" where
  "calc_root x n = bind_res (py_float x) (\<lambda>r. bind_res (py_int n) (\<lambda>k.
     if k \<le> 0 then Raise (ValueError ''Invalid Root'')
     else if r < 0 then
       (if k mod 2 = 0 then Raise (ValueError ''Complex Result'')
        else bind_res (float_pow (- r) (1 / of_int k)) (\<lambda>y. Ok (VFloat (- y))))
     else bind_res (float_pow r (1 / of_int k)) (\<lambda>y. Ok (VFloat y))))"

definition calc_fact :: "pyval \<Rightarrow> pyval res" where
  "calc_fact n = bind_res (py_float n) (\<lambda>r.
     if \<not> is_integer r then Raise (ValueError ''Factorial needs integer'')
     else if py_trunc r < 0 then Raise (ValueError ''Domain Error'')
     else Ok (VInt (fact (nat (py_trunc r)))))"

definition calc_npr :: "pyval \<Rightarrow> pyval \<Rightarrow> pyval res" where
  "calc_npr n r = bind_res (py_float n) (\<lambda>x. bind_res (py_float r) (\<lambda>y.
     if \<not> is_integer x \<or> \<not> is_integer y then Raise (ValueError ''nPr needs integers'')
     else if py_trunc x < 0 \<or> py_trunc y < 0 \<or> py_trunc x < py_trunc y
       then Raise (ValueError ''Domain Error'')
     else Ok (VInt (fact (nat (py_trunc x)) div fact (nat (py_trunc x - py_trunc y))))))"

definition calc_ncr :: "pyval \<Rightarrow> pyval \<Rightarrow> pyval res" where
  "calc_ncr n r = bind_res (py_float n) (\<lambda>x. bind_res (py_float r) (\<lambda>y.
     if \<not> is_integer x \<or> \<not> is_integer y then Raise (ValueError ''nCr needs integers'')
     else if py_trunc x < 0 \<or> py_trunc y < 0 \<or> py_trunc x < py_trunc y
       then Raise (ValueError ''Domain Error'')
     else Ok (VInt (int (nat (py_trunc x) choose nat (py_trunc y))))))"

subsection \<open>Operators and builtins\<close>

definition int_binop :: "binop \<Rightarrow> int \<Rightarrow> int \<Rightarrow> pyval res" where
  "int_binop oper m n =
     (case oper of
        Add \<Rightarrow> Ok (VInt (m + n))
      | Sub \<Rightarrow> Ok (VInt (m - n))
      | Mult \<Rightarrow> Ok (VInt (m * n))
      | Div \<Rightarrow>
          if n = 0 then Raise ZeroDivisionError
          else bind_res (float_result (of_int m / of_int n)) (\<lambda>z. Ok (VFloat z))
      | Mod \<Rightarrow> if n = 0 then Raise ZeroDivisionError else Ok (VInt (m mod n))
      | FloorDiv \<Rightarrow> if n = 0 then Raise ZeroDivisionError else Ok (VInt (m div n))
      | Power \<Rightarrow>
          if 0 \<le> n then Ok (VInt (m ^ nat n))
          else bind_res (float_of_int m) (\<lambda>x. bind_res (float_of_int n) (\<lambda>y.
                 bind_res (float_pow x y) (\<lambda>z. Ok (VFloat z)))))"

definition float_value :: "real \<Rightarrow> pyval res" where
  "float_value r = (if float_range r then Ok (VFloat r) else Unmodelled)"

definition float_binop :: "binop \<Rightarrow> real \<Rightarrow> real \<Rightarrow> pyval res" where
  "float_binop oper x y =
     (case oper of
        Add \<Rightarrow> float_value (x + y)
      | Sub \<Rightarrow> float_value (x - y)
      | Mult \<Rightarrow> float_value (x * y)
      | Div \<Rightarrow> if y = 0 then Raise ZeroDivisionError else float_value (x / y)
      | Mod \<Rightarrow> if y = 0 then Raise ZeroDivisionError else Ok (VFloat (float_mod x y))
      | FloorDiv \<Rightarrow> if y = 0 then Raise ZeroDivisionError else float_value (of_int \<lfloor>x / y\<rfloor>)
      | Power \<Rightarrow> bind_res (float_pow x y) (\<lambda>z. Ok (VFloat z)))"

fun is_seq :: "pyval \<Rightarrow> bool" where
  "is_seq (VStr s) = True"
| "is_seq (VTuple vs) = True"
| "is_seq _ = False"

text \<open>
  A binary operator: integers stay integers (but \<open>/\<close>, and \<open>**\<close> with a negative
  exponent), a float operand makes the other one a float. Strings and tuples have
  operators of their own (\<open>+\<close>, \<open>*\<close>, \<open>%\<close>), outside the model; every other operand is a
  \<open>TypeError\<close>.
\<close>

definition py_binop :: "binop \<Rightarrow> pyval \<Rightarrow> pyval \<Rightarrow> pyval res" where
  "py_binop oper a b =
     (case a of
        VInt m \<Rightarrow>
          (case b of
             VInt n \<Rightarrow> int_binop oper m n
           | VFloat y \<Rightarrow> bind_res (float_of_int m) (\<lambda>x. float_binop oper x y)
           | _ \<Rightarrow> if is_seq b then Unmodelled else Raise TypeError)
      | VFloat x \<Rightarrow>
          (case b of
             VInt n \<Rightarrow> bind_res (float_of_int n) (\<lambda>y. float_binop oper x y)
           | VFloat y \<Rightarrow> float_binop oper x y
           | _ \<Rightarrow> if is_seq b then Unmodelled else Raise TypeError)
      | _ \<Rightarrow> if is_seq a \<or> is_seq b then Unmodelled else Raise TypeError)"

definition py_unary :: "unaryop \<Rightarrow> pyval \<Rightarrow> pyval res" where
  "py_unary oper a =
     (case a of
        VInt m \<Rightarrow> Ok (VInt (case oper of UAdd \<Rightarrow> m | USub \<Rightarrow> - m))
      | VFloat x \<Rightarrow> Ok (VFloat (case oper of UAdd \<Rightarrow> x | USub \<Rightarrow> - x))
      | _ \<Rightarrow> Raise TypeError)"

text \<open>
  The builtins of the environment: \<open>abs\<close>, \<open>round\<close>, \<open>pow\<close> and \<open>math.exp\<close>. A wrong
  number of arguments is a \<open>TypeError\<close>; \<open>round\<close> with a digit count and \<open>pow\<close> with a
  modulus are outside the model.
\<close>

definition call_builtin :: "string \<Rightarrow> pyval list \<Rightarrow> pyval res" where
  "call_builtin f vs =
     (if f = ''abs'' then
        (case vs of
           [VInt m] \<Rightarrow> Ok (VInt \<bar>m\<bar>)
         | [VFloat x] \<Rightarrow> Ok (VFloat \<bar>x\<bar>)
         | _ \<Rightarrow> Raise TypeError)
      else if f = ''round'' then
        (case vs of
           [VInt m] \<Rightarrow> Ok (VInt m)
         | [VFloat x] \<Rightarrow> Ok (VInt (round_half_even x))
         | [_, _] \<Rightarrow> Unmodelled
         | _ \<Rightarrow> Raise TypeError)
      else if f = ''pow'' then
        (case vs of
           [a, b] \<Rightarrow> py_binop Power a b
         | [_, _, _] \<Rightarrow> Unmodelled
         | _ \<Rightarrow> Raise TypeError)
      else if f = ''exp'' then
        (case vs of
           [VInt m] \<Rightarrow>
             bind_res (float_of_int m) (\<lambda>x. bind_res (float_result (exp x)) (\<lambda>z. Ok (VFloat z)))
         | [VFloat x] \<Rightarrow> bind_res (float_result (exp x)) (\<lambda>z. Ok (VFloat z))
         | _ \<Rightarrow> Raise TypeError)
      else Unmodelled)"

subsection \<open>The environment, attributes and calls\<close>

text \<open>The dictionary \<open>safe_env\<close> of \<open>evaluate\<close>, in the order of the source.\<close>

definition safe_env :: "string \<Rightarrow> pyval option" where
  "safe_env = map_of
     [(''__builtins__'', VNone),
      (''pi'', VFloat pi),
      (''e'', VFloat (exp 1)),
      (''abs'', VBuiltin ''abs''),
      (''round'', VBuiltin ''round''),
      (''pow'', VBuiltin ''pow''),
      (''sin'', VMethod ''_sin''),
      (''cos'', VMethod ''_cos''),
      (''tan'', VMethod ''_tan''),
      (''ln'', VMethod ''_ln''),
      (''log'', VMethod ''_log''),
      (''log10'', VMethod ''_log10''),
      (''sqrt'', VMethod ''_sqrt''),
      (''root'', VMethod ''_root''),
      (''fact'', VMethod ''_fact''),
      (''nPr'', VMethod ''_npr''),
      (''nCr'', VMethod ''_ncr''),
      (''exp'', VBuiltin ''exp'')]"

definition method_names :: "string list" where
  "method_names = [''__init__'', ''set_angle_mode'', ''clear_history'', ''get_history'',
     ''_to_radians'', ''_format_result'', ''_preprocess'', ''_sin'', ''_cos'', ''_tan'',
     ''_ln'', ''_log10'', ''_log'', ''_sqrt'', ''_root'', ''_fact'', ''_npr'', ''_ncr'',
     ''evaluate'']"

text \<open>
  Attribute access \<open>v.a\<close>, for the attributes the model knows: a bound method's
  \<open>__self__\<close> is the instance it is bound to; a method name on the instance is that
  method, bound; \<open>__class__\<close> of a number is its type. Every other attribute is
  outside the model.
\<close>

definition get_attr :: "pyval \<Rightarrow> string \<Rightarrow> pyval res" where
  "get_attr v a =
     (case v of
        VMethod m \<Rightarrow> if a = ''__self__'' then Ok VInstance else Unmodelled
      | VInstance \<Rightarrow> if a \<in> set method_names then Ok (VMethod a) else Unmodelled
      | VFloat x \<Rightarrow> if a = ''__class__'' then Ok (VClass ''float'') else Unmodelled
      | VInt n \<Rightarrow> if a = ''__class__'' then Ok (VClass ''int'') else Unmodelled
      | _ \<Rightarrow> Unmodelled)"

definition clear_history :: "calc \<Rightarrow> calc" where
  "clear_history st = st\<lparr>history := []\<rparr>"

definition get_history :: "calc \<Rightarrow> (string \<times> pyval) list" where
  "get_history st = history st"

text \<open>
  Calling a bound method of the instance. The library methods read the state;
  \<open>__init__\<close> (with its default argument \<open>"DEG"\<close>) and \<open>clear_history\<close> write it. Calls of
  the remaining methods are outside the model.
\<close>

definition call_method :: "calc \<Rightarrow> string \<Rightarrow> pyval list \<Rightarrow> pyval res \<times> calc" where
  "call_method st m vs =
     (if m = ''_sin'' then (case vs of [x] \<Rightarrow> (calc_sin st x, st) | _ \<Rightarrow> (Raise TypeError, st))
      else if m = ''_cos'' then (case vs of [x] \<Rightarrow> (calc_cos st x, st) | _ \<Rightarrow> (Raise TypeError, st))
      else if m = ''_tan'' then (case vs of [x] \<Rightarrow> (calc_tan st x, st) | _ \<Rightarrow> (Raise TypeError, st))
      else if m = ''_ln'' then (case vs of [x] \<Rightarrow> (calc_ln x, st) | _ \<Rightarrow> (Raise TypeError, st))
      else if m = ''_log10'' then (case vs of [x] \<Rightarrow> (calc_log10 x, st) | _ \<Rightarrow> (Raise TypeError, st))
      else if m = ''_log'' then
        (case vs of
           [x] \<Rightarrow> (calc_log x (VInt 10), st)
         | [x, b] \<Rightarrow> (calc_log x b, st)
         | _ \<Rightarrow> (Raise TypeError, st))
      else if m = ''_sqrt'' then (case vs of [x] \<Rightarrow> (calc_sqrt x, st) | _ \<Rightarrow> (Raise TypeError, st))
      else if m = ''_root'' then
        (case vs of
           [x] \<Rightarrow> (calc_root x (VInt 2), st)
         | [x, n] \<Rightarrow> (calc_root x n, st)
         | _ \<Rightarrow> (Raise TypeError, st))
      else if m = ''_fact'' then (case vs of [n] \<Rightarrow> (calc_fact n, st) | _ \<Rightarrow> (Raise TypeError, st))
      else if m = ''_npr'' then (case vs of [n, r] \<Rightarrow> (calc_npr n r, st) | _ \<Rightarrow> (Raise TypeError, st))
      else if m = ''_ncr'' then (case vs of [n, r] \<Rightarrow> (calc_ncr n r, st) | _ \<Rightarrow> (Raise TypeError, st))
      else if m = ''__init__'' then
        (case vs of
           [] \<Rightarrow> (Ok VNone, CalculatorLogic_init st (VStr ''DEG''))
         | [mode] \<Rightarrow> (Ok VNone, CalculatorLogic_init st mode)
         | _ \<Rightarrow> (Raise TypeError, st))
      else if m = ''clear_history'' then
        (case vs of [] \<Rightarrow> (Ok VNone, clear_history st) | _ \<Rightarrow> (Raise TypeError, st))
      else (Unmodelled, st))"

definition call_value :: "calc \<Rightarrow> pyval \<Rightarrow> pyval list \<Rightarrow> pyval res \<times> calc" where
  "call_value st f vs =
     (case f of
        VBuiltin n \<Rightarrow> (call_builtin n vs, st)
      | VMethod m \<Rightarrow> call_method st m vs
      | VClass c \<Rightarrow> (Unmodelled, st)
      | _ \<Rightarrow> (Raise TypeError, st))"

subsection \<open>Evaluation of a syntax tree\<close>

text \<open>
  Python evaluates operands and arguments from left to right; the state each
  sub-expression leaves is the one the next starts in, also when a later one raises.
  A name is looked up in \<open>safe_env\<close> only: the local dictionary is empty, and with
  \<open>__builtins__\<close> bound to \<open>None\<close> the lookup of any other name fails with a \<open>TypeError\<close>
  (\<open>None\<close> is not subscriptable). The name \<open>__debug__\<close> is no lookup: the compiler replaces
  it by the constant \<open>True\<close>, and booleans are outside the model.
\<close>

fun eval :: "calc \<Rightarrow> expr \<Rightarrow> pyval res \<times> calc"
and eval_list :: "calc \<Rightarrow> expr list \<Rightarrow> pyval list res \<times> calc" where
  "eval st (IntLit n) = (Ok (VInt n), st)"
| "eval st (FloatLit x) = (float_value x, st)"
| "eval st (Name s) =
     (if s = ''__debug__'' then (Unmodelled, st)
      else case safe_env s of Some v \<Rightarrow> (Ok v, st) | None \<Rightarrow> (Raise TypeError, st))"
| "eval st (BinOp l oper r) =
     (case eval st l of
        (Ok a, st1) \<Rightarrow>
          (case eval st1 r of
             (Ok b, st2) \<Rightarrow> (py_binop oper a b, st2)
           | (Raise x, st2) \<Rightarrow> (Raise x, st2)
           | (Unmodelled, st2) \<Rightarrow> (Unmodelled, st2))
      | (Raise x, st1) \<Rightarrow> (Raise x, st1)
      | (Unmodelled, st1) \<Rightarrow> (Unmodelled, st1))"
| "eval st (UnaryOp oper e) =
     (case eval st e of
        (Ok a, st1) \<Rightarrow> (py_unary oper a, st1)
      | (Raise x, st1) \<Rightarrow> (Raise x, st1)
      | (Unmodelled, st1) \<Rightarrow> (Unmodelled, st1))"
| "eval st (Call f args) =
     (case eval st f of
        (Ok fv, st1) \<Rightarrow>
          (case eval_list st1 args of
             (Ok vs, st2) \<Rightarrow> call_value st2 fv vs
           | (Raise x, st2) \<Rightarrow> (Raise x, st2)
           | (Unmodelled, st2) \<Rightarrow> (Unmodelled, st2))
      | (Raise x, st1) \<Rightarrow> (Raise x, st1)
      | (Unmodelled, st1) \<Rightarrow> (Unmodelled, st1))"
| "eval st (Attribute e a) =
     (case eval st e of
        (Ok v, st1) \<Rightarrow> (get_attr v a, st1)
      | (Raise x, st1) \<Rightarrow> (Raise x, st1)
      | (Unmodelled, st1) \<Rightarrow> (Unmodelled, st1))"
| "eval st (Tuple es) =
     (case eval_list st es of
        (Ok vs, st1) \<Rightarrow> (Ok (VTuple vs), st1)
      | (Raise x, st1) \<Rightarrow> (Raise x, st1)
      | (Unmodelled, st1) \<Rightarrow> (Unmodelled, st1))"
| "eval_list st [] = (Ok [], st)"
| "eval_list st (e # es) =
     (case eval st e of
        (Ok v, st1) \<Rightarrow>
          (case eval_list st1 es of
             (Ok vs, st2) \<Rightarrow> (Ok (v # vs), st2)
           | (Raise x, st2) \<Rightarrow> (Raise x, st2)
           | (Unmodelled, st2) \<Rightarrow> (Unmodelled, st2))
      | (Raise x, st1) \<Rightarrow> (Raise x, st1)
      | (Unmodelled, st1) \<Rightarrow> (Unmodelled, st1))"


subsection \<open>\<open>_format_result\<close>\<close>

text \<open>
  The text of an int, \<open>str(n)\<close> or \<open>repr(n)\<close>: an int of more than \<open>max_str_digits\<close>
  digits raises \<open>ValueError\<close> with the text below.
\<close>

definition str_limit_message :: string where
  "str_limit_message = ''Exceeds the limit (4300 digits) for integer string conversion; use sys.set_int_max_str_digits() to increase the limit''"

definition int_str :: "int \<Rightarrow> string res" where
  "int_str n =
     (if 10 ^ max_str_digits \<le> \<bar>n\<bar> then Raise (ValueError str_limit_message)
      else Ok (str_int n))"

text \<open>
  \<open>repr(v)\<close>, which \<open>str\<close> of a tuple applies to the components, in order. The text of a
  float's or a string's \<open>repr\<close> (shortest round-trip digits, quoting) is outside the model.
  The first argument is the \<open>repr\<close> of the evaluator instance.
\<close>

fun py_repr :: "string \<Rightarrow> pyval \<Rightarrow> string res"
and py_repr_items :: "string \<Rightarrow> pyval list \<Rightarrow> string list res" where
  "py_repr obj (VInt n) = int_str n"
| "py_repr obj (VFloat x) = Unmodelled"
| "py_repr obj (VStr s) = Unmodelled"
| "py_repr obj VNone = Ok ''None''"
| "py_repr obj (VTuple vs) =
     (case py_repr_items obj vs of
        Ok [] \<Rightarrow> Ok ''()''
      | Ok [x] \<Rightarrow> Ok (''('' @ x @ '',)'')
      | Ok xs \<Rightarrow> Ok (''('' @ join '', '' xs @ '')'')
      | Raise x \<Rightarrow> Raise x
      | Unmodelled \<Rightarrow> Unmodelled)"
| "py_repr obj (VBuiltin f) = Ok (''<built-in function '' @ f @ ''>'')"
| "py_repr obj (VMethod m) = Ok (''<bound method CalculatorLogic.'' @ m @ '' of '' @ obj @ ''>'')"
| "py_repr obj VInstance = Ok obj"
| "py_repr obj (VClass c) = Ok (''<class '' @ [CHR 0x27] @ c @ [CHR 0x27] @ ''>'')"
| "py_repr_items obj [] = Ok []"
| "py_repr_items obj (v # vs) =
     (case py_repr obj v of
        Ok x \<Rightarrow>
          (case py_repr_items obj vs of
             Ok xs \<Rightarrow> Ok (x # xs)
           | Raise e \<Rightarrow> Raise e
           | Unmodelled \<Rightarrow> Unmodelled)
      | Raise e \<Rightarrow> Raise e
      | Unmodelled \<Rightarrow> Unmodelled)"

text \<open>\<open>str(v)\<close>: a string is itself, everything else prints as its \<open>repr\<close>.\<close>

definition py_str :: "string \<Rightarrow> pyval \<Rightarrow> string res" where
  "py_str obj v = (case v of VStr s \<Rightarrow> Ok s | _ \<Rightarrow> py_repr obj v)"

text \<open>
  \<open>f"{x:.12g}"\<close> for a float \<open>x\<close>: the twelve significant decimal digits of \<open>|x|\<close>
  (rounded to nearest, ties to even) and the exponent \<open>e\<close> of the first digit; fixed
  notation when \<open>-4 \<le> e < 12\<close>, scientific notation otherwise; trailing zeros of the
  fraction, and a point with nothing after it, are dropped; the exponent has at least
  two digits.
\<close>

definition sig_digits :: "real \<Rightarrow> int \<times> int" where
  "sig_digits a =
     (let e0 = \<lfloor>log 10 a\<rfloor>;
          m0 = round_half_even (a / 10 powi (e0 - 11))
      in if m0 = 10 ^ 12 then (10 ^ 11, e0 + 1) else (m0, e0))"

definition strip_zeros :: "string \<Rightarrow> string" where
  "strip_zeros s = rev (dropWhile (\<lambda>c. c = CHR ''0'') (rev s))"

definition with_point :: "string \<Rightarrow> string \<Rightarrow> string" where
  "with_point ip fp = (if strip_zeros fp = [] then ip else ip @ CHR ''.'' # strip_zeros fp)"

definition render_g :: "int \<times> int \<Rightarrow> string" where
  "render_g me =
     (let ds = str_nat (nat (fst me)); e = snd me
      in if - 4 \<le> e \<and> e < 12 then
           (if 0 \<le> e then with_point (take (nat e + 1) ds) (drop (nat e + 1) ds)
            else with_point ''0'' (replicate (nat (- e - 1)) (CHR ''0'') @ ds))
         else
           with_point (take 1 ds) (drop 1 ds) @ ''e'' @ (if e < 0 then ''-'' else ''+'')
             @ (if \<bar>e\<bar> < 10 then ''0'' else []) @ str_nat (nat \<bar>e\<bar>))"

definition fmt_12g :: "real \<Rightarrow> string" where
  "fmt_12g x =
     (if x = 0 then ''0''
      else (if x < 0 then ''-'' else []) @ render_g (sig_digits \<bar>x\<bar>))"

definition format_result :: "calc \<Rightarrow> pyval \<Rightarrow> string res" where
  "format_result st v =
     (case v of
        VFloat x \<Rightarrow> if is_integer x then int_str (py_trunc x) else Ok (fmt_12g x)
      | _ \<Rightarrow> py_str (obj_repr st) v)"

subsection \<open>\<open>set_angle_mode\<close>\<close>

definition set_angle_mode :: "calc \<Rightarrow> string \<Rightarrow> pyval res \<times> calc" where
  "set_angle_mode st mode =
     (let m = py_strip (py_upper mode)
      in if m \<noteq> ''DEG'' \<and> m \<noteq> ''RAD''
         then (Raise (ValueError (''Angle mode must be '' @ [CHR 0x27] @ ''DEG'' @ [CHR 0x27]
                                  @ '' or '' @ [CHR 0x27] @ ''RAD'' @ [CHR 0x27])), st)
         else (Ok VNone, st\<lparr>angle_mode := VStr m\<rparr>))"

subsection \<open>\<open>evaluate\<close>\<close>

text \<open>The \<open>except\<close> clauses.\<close>

fun error_message :: "exn \<Rightarrow> string" where
  "error_message ZeroDivisionError = ''Error: Division by Zero''"
| "error_message (ValueError msg) = msg"
| "error_message SyntaxError = ''Error: Invalid Expression''"
| "error_message TypeError = ''Error: Invalid Expression''"
| "error_message OverflowError = ''Error: Invalid Expression''"

text \<open>
  The \<open>try\<close> block once the expression has compiled to the tree \<open>ast\<close>: evaluate, append
  the raw expression and the result to the history, format. An exception of the
  formatting is caught like one of the evaluation, after the history entry was appended.
  \<open>None\<close> when the evaluation or the text of the result is outside the model.
\<close>

definition run :: "calc \<Rightarrow> string \<Rightarrow> expr \<Rightarrow> (string \<times> calc) option" where
  "run st expression ast =
     (case eval st ast of
        (Ok v, st1) \<Rightarrow>
          (let st2 = st1\<lparr>history := history st1 @ [(expression, v)]\<rparr>
           in case format_result st2 v of
                Ok text \<Rightarrow> Some (text, st2)
              | Raise x \<Rightarrow> Some (error_message x, st2)
              | Unmodelled \<Rightarrow> None)
      | (Raise x, st1) \<Rightarrow> Some (error_message x, st1)
      | (Unmodelled, st1) \<Rightarrow> None)"

text \<open>
  \<open>evaluate\<close>: the returned text and the state afterwards. \<open>eval\<close> compiles the whole
  expression before it evaluates any of it, so a syntax error leaves the state as it was.
\<close>

definition evaluate :: "calc \<Rightarrow> string \<Rightarrow> (string \<times> calc) option" where
  "evaluate st expression =
     (let expr = preprocess expression
      in if expr = [] then Some ([], st)
         else if expr = ''__INVALID_CHARS__'' then Some (''Error: Invalid Characters'', st)
         else (case parse_str expr of
                 Ok ast \<Rightarrow> run st expression ast
               | Raise x \<Rightarrow> Some (error_message x, st)
               | Unmodelled \<Rightarrow> None))"


subsection \<open>Numbers within the limits\<close>

lemma float_of_int_small [simp]: "\<bar>n\<bar> < 2 ^ 53 \<Longrightarrow> float_of_int n = Ok (of_int n)"
  by (simp add: float_of_int_def)

lemma float_of_int_overflow: "2 ^ 1024 \<le> \<bar>n\<bar> \<Longrightarrow> float_of_int n = Raise OverflowError"
  by (simp add: float_of_int_def)

lemma float_max_large: "2 ^ 64 \<le> float_max"
  by (simp add: float_max_def)

lemma float_range_small: "1 / 2 ^ 64 \<le> \<bar>r\<bar> \<Longrightarrow> \<bar>r\<bar> \<le> 2 ^ 64 \<Longrightarrow> float_range r"
proof -
  assume a: "1 / 2 ^ 64 \<le> \<bar>r\<bar>" and b: "\<bar>r\<bar> \<le> 2 ^ 64"
  have "(1::real) / 2 ^ 1022 \<le> 1 / 2 ^ 64" by simp
  from this a have "1 / 2 ^ 1022 \<le> \<bar>r\<bar>" by (rule order_trans)
  moreover from b float_max_large have "\<bar>r\<bar> \<le> float_max" by (rule order_trans)
  ultimately show ?thesis by (simp only: float_range_def simp_thms)
qed

lemma float_range_zero [simp]: "float_range 0"
  by (simp add: float_range_def)

lemma float_result_small [simp]:
  "1 / 2 ^ 64 \<le> \<bar>r\<bar> \<Longrightarrow> \<bar>r\<bar> \<le> 2 ^ 64 \<Longrightarrow> float_result r = Ok r"
  using float_range_small[of r] by (simp add: float_result_def)

lemma float_value_small [simp]:
  "1 / 2 ^ 64 \<le> \<bar>r\<bar> \<Longrightarrow> \<bar>r\<bar> \<le> 2 ^ 64 \<Longrightarrow> float_value r = Ok (VFloat r)"
  using float_range_small[of r] by (simp add: float_value_def)

lemma float_result_zero [simp]: "float_result 0 = Ok 0"
  by (simp add: float_result_def)

lemma float_value_zero [simp]: "float_value 0 = Ok (VFloat 0)"
  by (simp add: float_value_def)

lemma str_limit_large: "(10::int) ^ 18 \<le> 10 ^ max_str_digits"
  by (rule power_increasing) (simp_all add: max_str_digits_def)

lemma int_str_small [simp]: "\<bar>n\<bar> < 10 ^ 18 \<Longrightarrow> int_str n = Ok (str_int n)"
  using str_limit_large by (simp add: int_str_def)

section \<open>Evaluating concrete expressions\<close>

text \<open>
  The sanitizer and the parser on the expressions used below. All are closed terms over
  strings and integers, computed from the code equations.
\<close>

lemma pre_pow_a: "preprocess ''2^8'' = ''2**8''" by code_simp
lemma pre_pow_b: "preprocess ''2^3^2'' = ''2**3**2''" by code_simp
lemma pre_pow_c: "preprocess ''-2^2'' = ''-2**2''" by code_simp
lemma pre_class: "preprocess ''e.__class__'' = ''e.__class__''" by code_simp
lemma pre_floordiv: "preprocess ''2//3'' = ''2//3''" by code_simp
lemma pre_init: "preprocess ''sin.__self__.__init__()'' = ''sin.__self__.__init__()''" by code_simp
lemma pre_init_arg: "preprocess ''sin.__self__.__init__(1)'' = ''sin.__self__.__init__(1)''" by code_simp
lemma pre_clear: "preprocess ''sin.__self__.clear_history()+1'' = ''sin.__self__.clear_history()+1''"
  by code_simp
lemma pre_sum: "preprocess ''1+1'' = ''1+1''" by code_simp
lemma pre_tuple: "preprocess ''(1,2)'' = ''(1,2)''" by code_simp
lemma pre_sin: "preprocess ''sin'' = ''sin''" by code_simp

lemma parse_pow_a: "parse_str ''2**8'' = Ok (BinOp (IntLit 2) Power (IntLit 8))" by code_simp
lemma parse_pow_b:
  "parse_str ''2**3**2'' = Ok (BinOp (IntLit 2) Power (BinOp (IntLit 3) Power (IntLit 2)))"
  by code_simp
lemma parse_pow_c: "parse_str ''-2**2'' = Ok (UnaryOp USub (BinOp (IntLit 2) Power (IntLit 2)))"
  by code_simp
lemma parse_class: "parse_str ''e.__class__'' = Ok (Attribute (Name ''e'') ''__class__'')"
  by code_simp
lemma parse_floordiv: "parse_str ''2//3'' = Ok (BinOp (IntLit 2) FloorDiv (IntLit 3))"
  by code_simp
lemma parse_init:
  "parse_str ''sin.__self__.__init__()''
     = Ok (Call (Attribute (Attribute (Name ''sin'') ''__self__'') ''__init__'') [])"
  by code_simp
lemma parse_init_arg:
  "parse_str ''sin.__self__.__init__(1)''
     = Ok (Call (Attribute (Attribute (Name ''sin'') ''__self__'') ''__init__'') [IntLit 1])"
  by code_simp
lemma parse_clear:
  "parse_str ''sin.__self__.clear_history()+1''
     = Ok (BinOp (Call (Attribute (Attribute (Name ''sin'') ''__self__'') ''clear_history'') [])
                 Add (IntLit 1))"
  by code_simp
lemma parse_sum: "parse_str ''1+1'' = Ok (BinOp (IntLit 1) Add (IntLit 1))" by code_simp
lemma parse_tuple: "parse_str ''(1,2)'' = Ok (Tuple [IntLit 1, IntLit 2])" by code_simp
lemma parse_sin: "parse_str ''sin'' = Ok (Name ''sin'')" by code_simp

lemma str_int_small:
  "str_int 0 = ''0''" "str_int 1 = ''1''" "str_int 2 = ''2''" "str_int 3 = ''3''"
  "str_int 4 = ''4''" "str_int (- 2) = ''-2''" "str_int (- 4) = ''-4''"
  "str_int 256 = ''256''" "str_int 512 = ''512''"
  by code_simp+

lemma safe_env_names:
  "safe_env ''e'' = Some (VFloat (exp 1))"
  "safe_env ''pi'' = Some (VFloat pi)"
  "safe_env ''sin'' = Some (VMethod ''_sin'')"
  "safe_env ''tan'' = Some (VMethod ''_tan'')"
  "safe_env ''root'' = Some (VMethod ''_root'')"
  "safe_env ''fact'' = Some (VMethod ''_fact'')"
  "safe_env ''nPr'' = Some (VMethod ''_npr'')"
  "safe_env ''nCr'' = Some (VMethod ''_ncr'')"
  by (simp_all add: safe_env_def)

lemma instance_methods:
  "get_attr (VMethod m) ''__self__'' = Ok VInstance"
  "get_attr VInstance ''__init__'' = Ok (VMethod ''__init__'')"
  "get_attr VInstance ''clear_history'' = Ok (VMethod ''clear_history'')"
  by (simp_all add: get_attr_def method_names_def)

lemma call_init:
  "call_method st ''__init__'' [] = (Ok VNone, CalculatorLogic_init st (VStr ''DEG''))"
  "call_method st ''__init__'' [v] = (Ok VNone, CalculatorLogic_init st v)"
  "call_method st ''clear_history'' [] = (Ok VNone, clear_history st)"
  by (simp_all add: call_method_def)

section \<open>The claims\<close>

text \<open>
  C9. The sanitizer turns every caret into Python's power operator: no caret is left in
  what \<open>_preprocess\<close> returns, and an expression of permitted characters and carets comes
  back stripped with \<open>**\<close> for each caret. The power operator is right-associative and
  binds tighter than a unary minus, for all integer literals \<open>a\<close>, \<open>b\<close>, \<open>c\<close>; so
  \<open>evaluate("2^8")\<close> returns \<open>256\<close>, \<open>evaluate("2^3^2")\<close> returns \<open>512\<close> (that is
  \<open>2^(3^2)\<close>), and \<open>evaluate("-2^2")\<close> returns \<open>-4\<close>.
\<close>

lemma replace_other: "old \<notin> set s \<Longrightarrow> py_replace old new s = s"
  by (induction s) (auto simp: py_replace_def)

lemma allowed_not_glyph:
  "allowed_char c \<Longrightarrow> c \<noteq> times_sign \<and> c \<noteq> division_sign \<and> c \<noteq> CHR ''^''"
  by (auto simp: allowed_char_def is_digit_def is_alpha_def is_space_def times_sign_def
      division_sign_def Let_def)

lemma strip_subset: "set (py_strip s) \<subseteq> set s"
proof
  fix x
  assume "x \<in> set (py_strip s)"
  then have "x \<in> set (dropWhile is_space (rev (dropWhile is_space s)))"
    by (simp add: py_strip_def)
  then have "x \<in> set (rev (dropWhile is_space s))" by (rule set_dropWhileD)
  then have "x \<in> set (dropWhile is_space s)" by simp
  then show "x \<in> set s" by (rule set_dropWhileD)
qed

lemma replace_caret_allowed:
  assumes "\<forall>c \<in> set s. allowed_char c \<or> c = CHR ''^''"
  shows "list_all allowed_char (py_replace (CHR ''^'') ''**'' s)"
  using assms
  by (induction s)
     (auto simp: py_replace_def allowed_char_def is_digit_def is_alpha_def is_space_def)

theorem caret_is_power:
  "CHR ''^'' \<notin> set (preprocess s)
   \<and> (list_all (\<lambda>c. allowed_char c \<or> c = CHR ''^'') s
        \<longrightarrow> preprocess s = py_replace (CHR ''^'') ''**'' (py_strip s))
   \<and> parse [TInt a, TPow, TInt b, TPow, TInt c]
        = Ok (BinOp (IntLit a) Power (BinOp (IntLit b) Power (IntLit c)))
   \<and> parse [TMinus, TInt a, TPow, TInt b] = Ok (UnaryOp USub (BinOp (IntLit a) Power (IntLit b)))
   \<and> evaluate st ''2^8'' = Some (''256'', st\<lparr>history := history st @ [(''2^8'', VInt 256)]\<rparr>)
   \<and> evaluate st ''2^3^2''
        = Some (''512'', st\<lparr>history := history st @ [(''2^3^2'', VInt 512)]\<rparr>)
   \<and> evaluate st ''-2^2''
        = Some (''-4'', st\<lparr>history := history st @ [(''-2^2'', VInt (- 4))]\<rparr>)"
proof -
  have no_caret: "CHR ''^'' \<notin> set (preprocess s)"
  proof (cases "list_all allowed_char
      (py_replace (CHR ''^'') ''**'' (py_replace division_sign ''/''
        (py_replace times_sign ''*'' (py_strip s))))")
    case True
    then have "\<forall>c \<in> set (preprocess s). allowed_char c"
      by (simp add: preprocess_def Let_def list_all_iff)
    then show ?thesis using allowed_not_glyph by blast
  next
    case False
    then show ?thesis by (simp add: preprocess_def Let_def)
  qed
  have clean: "preprocess s = py_replace (CHR ''^'') ''**'' (py_strip s)"
    if h0: "list_all (\<lambda>c. allowed_char c \<or> c = CHR ''^'') s"
  proof -
    from h0 have h: "\<forall>c \<in> set s. allowed_char c \<or> c = CHR ''^''"
      by (simp add: list_all_iff)
    from h strip_subset[of s]
    have h': "\<forall>c \<in> set (py_strip s). allowed_char c \<or> c = CHR ''^''" by blast
    then have "times_sign \<notin> set (py_strip s)" "division_sign \<notin> set (py_strip s)"
      using allowed_not_glyph by (auto simp: times_sign_def division_sign_def)
    then have "py_replace division_sign ''/'' (py_replace times_sign ''*'' (py_strip s)) = py_strip s"
      by (simp add: replace_other)
    with replace_caret_allowed[OF h'] show ?thesis
      by (simp add: preprocess_def Let_def)
  qed
  have right_assoc: "parse [TInt a, TPow, TInt b, TPow, TInt c]
      = Ok (BinOp (IntLit a) Power (BinOp (IntLit b) Power (IntLit c)))"
    by (simp add: parse_def p_items.simps p_arith.simps p_arith_rest.simps p_term.simps
        p_term_rest.simps p_factor.simps p_power.simps p_trailers.simps p_atom.simps mk_group_def)
  have tighter: "parse [TMinus, TInt a, TPow, TInt b]
      = Ok (UnaryOp USub (BinOp (IntLit a) Power (IntLit b)))"
    by (simp add: parse_def p_items.simps p_arith.simps p_arith_rest.simps p_term.simps
        p_term_rest.simps p_factor.simps p_power.simps p_trailers.simps p_atom.simps mk_group_def)
  have e1: "evaluate st ''2^8'' = Some (''256'', st\<lparr>history := history st @ [(''2^8'', VInt 256)]\<rparr>)"
    by (simp add: evaluate_def pre_pow_a parse_pow_a run_def py_binop_def int_binop_def
        format_result_def py_str_def str_int_small)
  have e2: "evaluate st ''2^3^2''
      = Some (''512'', st\<lparr>history := history st @ [(''2^3^2'', VInt 512)]\<rparr>)"
    by (simp add: evaluate_def pre_pow_b parse_pow_b run_def py_binop_def int_binop_def
        format_result_def py_str_def str_int_small)
  have e3: "evaluate st ''-2^2''
      = Some (''-4'', st\<lparr>history := history st @ [(''-2^2'', VInt (- 4))]\<rparr>)"
    by (simp add: evaluate_def pre_pow_c parse_pow_c run_def py_binop_def int_binop_def
        py_unary_def format_result_def py_str_def str_int_small)
  from no_caret clean right_assoc tighter e1 e2 e3 show ?thesis by blast
qed

theorem caret_is_power_witness:
  "list_all (\<lambda>c. allowed_char c \<or> c = CHR ''^'') ''2^3^2''
   \<and> preprocess ''2^3^2'' = py_replace (CHR ''^'') ''**'' (py_strip ''2^3^2'')
   \<and> py_replace (CHR ''^'') ''**'' (py_strip ''2^3^2'') = ''2**3**2''
   \<and> evaluate fresh ''2^3^2''
        = Some (''512'', fresh\<lparr>history := history fresh @ [(''2^3^2'', VInt 512)]\<rparr>)"
proof -
  have h: "list_all (\<lambda>c. allowed_char c \<or> c = CHR ''^'') ''2^3^2''"
    by (simp add: allowed_char_def is_digit_def)
  have r: "py_replace (CHR ''^'') ''**'' (py_strip ''2^3^2'') = ''2**3**2''" by code_simp
  from h r caret_is_power[of "''2^3^2''" 2 3 2 fresh] show ?thesis by blast
qed


text \<open>
  C1. The expression \<open>e.__class__\<close> passes the character check, and \<open>eval\<close> evaluates the
  attribute access: \<open>evaluate\<close> returns the text of the type object \<open>float\<close> and records
  it in the history, instead of an invalid-expression error. Floor division \<open>2//3\<close>, an
  operator outside the calculator's grammar, is evaluated likewise.
\<close>

theorem attribute_access_is_evaluated:
  "evaluate st ''e.__class__''
     = Some (''<class '' @ [CHR 0x27] @ ''float'' @ [CHR 0x27] @ ''>'',
             st\<lparr>history := history st @ [(''e.__class__'', VClass ''float'')]\<rparr>)
   \<and> evaluate st ''2//3'' = Some (''0'', st\<lparr>history := history st @ [(''2//3'', VInt 0)]\<rparr>)"
proof -
  have a: "evaluate st ''e.__class__''
      = Some (''<class '' @ [CHR 0x27] @ ''float'' @ [CHR 0x27] @ ''>'',
              st\<lparr>history := history st @ [(''e.__class__'', VClass ''float'')]\<rparr>)"
    by (simp add: evaluate_def pre_class parse_class run_def safe_env_names get_attr_def
        format_result_def py_str_def)
  have b: "evaluate st ''2//3'' = Some (''0'', st\<lparr>history := history st @ [(''2//3'', VInt 0)]\<rparr>)"
    by (simp add: evaluate_def pre_floordiv parse_floordiv run_def py_binop_def int_binop_def
        format_result_def py_str_def str_int_small)
  from a b show ?thesis by (rule conjI)
qed

text \<open>
  C3. The history does not survive every evaluation. After the successful evaluation of
  \<open>1+1\<close> the history has one entry; the expression \<open>sin.__self__.__init__()\<close> then
  evaluates successfully (to \<open>None\<close>) and leaves a history of one entry, its own: two
  successful evaluations, one entry. The expression \<open>sin.__self__.clear_history()+1\<close>
  fails with the invalid-expression message and leaves the history empty: a failed
  evaluation has removed an entry.
\<close>

theorem history_lost_through_evaluate:
  "evaluate fresh ''1+1'' = Some (''2'', fresh\<lparr>history := [(''1+1'', VInt 2)]\<rparr>)
   \<and> evaluate (fresh\<lparr>history := [(''1+1'', VInt 2)]\<rparr>) ''sin.__self__.__init__()''
       = Some (''None'', fresh\<lparr>history := [(''sin.__self__.__init__()'', VNone)]\<rparr>)
   \<and> evaluate (fresh\<lparr>history := [(''1+1'', VInt 2)]\<rparr>) ''sin.__self__.clear_history()+1''
       = Some (''Error: Invalid Expression'', fresh\<lparr>history := []\<rparr>)"
proof -
  have a: "evaluate fresh ''1+1'' = Some (''2'', fresh\<lparr>history := [(''1+1'', VInt 2)]\<rparr>)"
    by (simp add: evaluate_def pre_sum parse_sum run_def py_binop_def int_binop_def
        format_result_def py_str_def str_int_small fresh_def)
  have b: "evaluate (fresh\<lparr>history := [(''1+1'', VInt 2)]\<rparr>) ''sin.__self__.__init__()''
      = Some (''None'', fresh\<lparr>history := [(''sin.__self__.__init__()'', VNone)]\<rparr>)"
    by (simp add: evaluate_def pre_init parse_init run_def safe_env_names instance_methods
        call_value_def call_init CalculatorLogic_init_def format_result_def py_str_def fresh_def)
  have c: "evaluate (fresh\<lparr>history := [(''1+1'', VInt 2)]\<rparr>) ''sin.__self__.clear_history()+1''
      = Some (''Error: Invalid Expression'', fresh\<lparr>history := []\<rparr>)"
    by (simp add: evaluate_def pre_clear parse_clear run_def safe_env_names instance_methods
        call_value_def call_init clear_history_def py_binop_def fresh_def)
  from a b c show ?thesis by blast
qed

text \<open>
  C4. A result that is not a number is returned and recorded like any other: the tuple
  \<open>(1,2)\<close> comes back as the text \<open>(1, 2)\<close>, the bare name \<open>sin\<close> as the text of the bound
  method, and each is appended to the history.
\<close>

theorem non_numeric_results_are_recorded:
  "evaluate st ''(1,2)''
     = Some (''(1, 2)'', st\<lparr>history := history st @ [(''(1,2)'', VTuple [VInt 1, VInt 2])]\<rparr>)
   \<and> evaluate st ''sin''
     = Some (''<bound method CalculatorLogic._sin of '' @ obj_repr st @ ''>'',
             st\<lparr>history := history st @ [(''sin'', VMethod ''_sin'')]\<rparr>)"
proof -
  have a: "evaluate st ''(1,2)''
      = Some (''(1, 2)'', st\<lparr>history := history st @ [(''(1,2)'', VTuple [VInt 1, VInt 2])]\<rparr>)"
    by (simp add: evaluate_def pre_tuple parse_tuple run_def format_result_def py_str_def
        str_int_small)
  have b: "evaluate st ''sin''
      = Some (''<bound method CalculatorLogic._sin of '' @ obj_repr st @ ''>'',
              st\<lparr>history := history st @ [(''sin'', VMethod ''_sin'')]\<rparr>)"
    by (simp add: evaluate_def Let_def pre_sin parse_sin run_def safe_env_names format_result_def
        py_str_def)
  from a b show ?thesis by (rule conjI)
qed

text \<open>
  C10. \<open>evaluate\<close> can change the angle mode. For every state, the expression
  \<open>sin.__self__.__init__()\<close> reaches the constructor through the bound method \<open>sin\<close>,
  which sets the mode to its default \<open>DEG\<close> and empties the history; \<open>evaluate\<close> returns
  \<open>None\<close>. After \<open>set_angle_mode("RAD")\<close> on a new instance, this evaluation leaves the
  mode at \<open>DEG\<close>.
\<close>

theorem evaluate_can_reset_angle_mode:
  "evaluate st ''sin.__self__.__init__()''
     = Some (''None'', st\<lparr>angle_mode := VStr ''DEG'',
                           history := [(''sin.__self__.__init__()'', VNone)]\<rparr>)
   \<and> set_angle_mode fresh ''RAD'' = (Ok VNone, fresh\<lparr>angle_mode := VStr ''RAD''\<rparr>)
   \<and> evaluate (fresh\<lparr>angle_mode := VStr ''RAD''\<rparr>) ''sin.__self__.__init__()''
     = Some (''None'', fresh\<lparr>history := [(''sin.__self__.__init__()'', VNone)]\<rparr>)
   \<and> angle_mode (fresh\<lparr>history := [(''sin.__self__.__init__()'', VNone)]\<rparr>) = VStr ''DEG''"
proof -
  have a: "evaluate st ''sin.__self__.__init__()''
      = Some (''None'', st\<lparr>angle_mode := VStr ''DEG'',
                            history := [(''sin.__self__.__init__()'', VNone)]\<rparr>)" for st
    by (simp add: evaluate_def pre_init parse_init run_def safe_env_names instance_methods
        call_value_def call_init CalculatorLogic_init_def format_result_def py_str_def)
  have up: "py_upper ''RAD'' = ''RAD''" by code_simp
  have st: "py_strip ''RAD'' = ''RAD''" by code_simp
  have b: "set_angle_mode fresh ''RAD'' = (Ok VNone, fresh\<lparr>angle_mode := VStr ''RAD''\<rparr>)"
    by (simp add: set_angle_mode_def up st)
  have c: "evaluate (fresh\<lparr>angle_mode := VStr ''RAD''\<rparr>) ''sin.__self__.__init__()''
      = Some (''None'', fresh\<lparr>history := [(''sin.__self__.__init__()'', VNone)]\<rparr>)"
    by (simp add: a fresh_def)
  have d: "angle_mode (fresh\<lparr>history := [(''sin.__self__.__init__()'', VNone)]\<rparr>) = VStr ''DEG''"
    by (simp add: fresh_def)
  from a b c d show ?thesis by blast
qed


subsection \<open>The integer-only functions\<close>

lemma pre_fact: "preprocess ''fact(2.5)'' = ''fact(2.5)''" by code_simp
lemma parse_fact: "parse_str ''fact(2.5)'' = Ok (Call (Name ''fact'') [FloatLit (5 / 2)])"
  by code_simp
lemma pre_npr: "preprocess ''nPr(5,2.5)'' = ''nPr(5,2.5)''" by code_simp
lemma parse_npr:
  "parse_str ''nPr(5,2.5)'' = Ok (Call (Name ''nPr'') [IntLit 5, FloatLit (5 / 2)])"
  by code_simp
lemma pre_ncr: "preprocess ''nCr(2.5,1)'' = ''nCr(2.5,1)''" by code_simp
lemma parse_ncr:
  "parse_str ''nCr(2.5,1)'' = Ok (Call (Name ''nCr'') [FloatLit (5 / 2), IntLit 1])"
  by code_simp
lemma pre_npr_big: "preprocess ''nPr(2.5,10**400)'' = ''nPr(2.5,10**400)''" by code_simp
lemma parse_npr_big:
  "parse_str ''nPr(2.5,10**400)''
     = Ok (Call (Name ''nPr'') [FloatLit (5 / 2), BinOp (IntLit 10) Power (IntLit 400)])"
  by code_simp

lemma not_integer_half: "\<not> is_integer (5 / 2)" "\<not> is_integer (1 / 2)"
  by (simp_all add: is_integer_def)

text \<open>
  C8, as the claim states it, fails: \<open>evaluate("fact(2.5)")\<close> returns the text
  \<open>Factorial needs integer\<close>, which is not the invalid-expression message.
\<close>

theorem fact_fraction_message_counterexample:
  "evaluate fresh ''fact(2.5)'' = Some (''Factorial needs integer'', fresh)
   \<and> evaluate fresh ''fact(2.5)'' \<noteq> Some (''Error: Invalid Expression'', fresh)"
proof -
  have "evaluate fresh ''fact(2.5)'' = Some (''Factorial needs integer'', fresh)"
    by (simp add: evaluate_def pre_fact parse_fact run_def safe_env_names call_value_def
        call_method_def calc_fact_def bind_res_def not_integer_half)
  then show ?thesis by simp
qed

text \<open>
  C8, amended. Each of \<open>fact\<close>, \<open>nPr\<close> and \<open>nCr\<close> first converts its arguments with
  \<open>float\<close>, from left to right, and a failing conversion ends the call: an int beyond the
  float range raises \<open>OverflowError\<close>, for which \<open>evaluate\<close> returns the invalid-expression
  message. When every argument converts and one of the converted values is not integral,
  the function raises \<open>ValueError\<close> with its own message (\<open>Factorial needs integer\<close>,
  \<open>nPr needs integers\<close>, \<open>nCr needs integers\<close>); \<open>evaluate\<close> returns the message of a
  \<open>ValueError\<close> as it is and appends nothing to the history. These messages differ from
  \<open>Domain Error\<close> and from the invalid-expression message that parse failures and wrong
  arity produce. The statement is about the values the functions receive; the three
  expressions are instances whose literals are floats exactly.
\<close>

theorem integer_only_functions_own_message:
  "(py_float v = Ok x \<and> \<not> is_integer x
      \<longrightarrow> call_method st ''_fact'' [v] = (Raise (ValueError ''Factorial needs integer''), st))
   \<and> (py_float v = Ok x \<and> py_float w = Ok y \<and> (\<not> is_integer x \<or> \<not> is_integer y)
      \<longrightarrow> call_method st ''_npr'' [v, w] = (Raise (ValueError ''nPr needs integers''), st)
          \<and> call_method st ''_ncr'' [v, w] = (Raise (ValueError ''nCr needs integers''), st))
   \<and> (py_float a = Raise err
      \<longrightarrow> call_method st ''_fact'' [a] = (Raise err, st)
          \<and> call_method st ''_npr'' [a, w] = (Raise err, st)
          \<and> call_method st ''_ncr'' [a, w] = (Raise err, st))
   \<and> (py_float v = Ok x \<and> py_float a = Raise err
      \<longrightarrow> call_method st ''_npr'' [v, a] = (Raise err, st)
          \<and> call_method st ''_ncr'' [v, a] = (Raise err, st))
   \<and> (2 ^ 1024 \<le> \<bar>n\<bar> \<longrightarrow> py_float (VInt n) = Raise OverflowError)
   \<and> safe_env ''fact'' = Some (VMethod ''_fact'')
   \<and> safe_env ''nPr'' = Some (VMethod ''_npr'')
   \<and> safe_env ''nCr'' = Some (VMethod ''_ncr'')
   \<and> (eval st ast = (Raise (ValueError msg), st1) \<longrightarrow> run st s ast = Some (msg, st1))
   \<and> (eval st ast = (Raise OverflowError, st1)
      \<longrightarrow> run st s ast = Some (''Error: Invalid Expression'', st1))
   \<and> evaluate st ''fact(2.5)'' = Some (''Factorial needs integer'', st)
   \<and> evaluate st ''nPr(5,2.5)'' = Some (''nPr needs integers'', st)
   \<and> evaluate st ''nCr(2.5,1)'' = Some (''nCr needs integers'', st)
   \<and> evaluate st ''nPr(2.5,10**400)'' = Some (''Error: Invalid Expression'', st)
   \<and> error_message SyntaxError = ''Error: Invalid Expression''
   \<and> error_message TypeError = ''Error: Invalid Expression''
   \<and> list_all (\<lambda>m. m \<noteq> ''Error: Invalid Expression'' \<and> m \<noteq> ''Domain Error'')
        [''Factorial needs integer'', ''nPr needs integers'', ''nCr needs integers'']"
proof -
  have one: "py_float v = Ok x \<and> \<not> is_integer x
      \<longrightarrow> call_method st ''_fact'' [v] = (Raise (ValueError ''Factorial needs integer''), st)"
    by (simp add: call_method_def calc_fact_def bind_res_def)
  have two: "py_float v = Ok x \<and> py_float w = Ok y \<and> (\<not> is_integer x \<or> \<not> is_integer y)
      \<longrightarrow> call_method st ''_npr'' [v, w] = (Raise (ValueError ''nPr needs integers''), st)
          \<and> call_method st ''_ncr'' [v, w] = (Raise (ValueError ''nCr needs integers''), st)"
    by (auto simp: call_method_def calc_npr_def calc_ncr_def bind_res_def)
  have first: "py_float a = Raise err
      \<longrightarrow> call_method st ''_fact'' [a] = (Raise err, st)
          \<and> call_method st ''_npr'' [a, w] = (Raise err, st)
          \<and> call_method st ''_ncr'' [a, w] = (Raise err, st)"
    by (simp add: call_method_def calc_fact_def calc_npr_def calc_ncr_def bind_res_def)
  have second: "py_float v = Ok x \<and> py_float a = Raise err
      \<longrightarrow> call_method st ''_npr'' [v, a] = (Raise err, st)
          \<and> call_method st ''_ncr'' [v, a] = (Raise err, st)"
    by (simp add: call_method_def calc_npr_def calc_ncr_def bind_res_def)
  have big: "2 ^ 1024 \<le> \<bar>n\<bar> \<longrightarrow> py_float (VInt n) = Raise OverflowError"
    by (simp add: float_of_int_overflow)
  have value_error: "eval st ast = (Raise (ValueError msg), st1) \<longrightarrow> run st s ast = Some (msg, st1)"
    by (simp add: run_def)
  have overflow: "eval st ast = (Raise OverflowError, st1)
      \<longrightarrow> run st s ast = Some (''Error: Invalid Expression'', st1)"
    by (simp add: run_def)
  have e1: "evaluate st ''fact(2.5)'' = Some (''Factorial needs integer'', st)"
    by (simp add: evaluate_def pre_fact parse_fact run_def safe_env_names call_value_def
        call_method_def calc_fact_def bind_res_def not_integer_half)
  have e2: "evaluate st ''nPr(5,2.5)'' = Some (''nPr needs integers'', st)"
    by (simp add: evaluate_def pre_npr parse_npr run_def safe_env_names call_value_def
        call_method_def calc_npr_def bind_res_def not_integer_half)
  have e3: "evaluate st ''nCr(2.5,1)'' = Some (''nCr needs integers'', st)"
    by (simp add: evaluate_def pre_ncr parse_ncr run_def safe_env_names call_value_def
        call_method_def calc_ncr_def bind_res_def not_integer_half)
  have e4: "evaluate st ''nPr(2.5,10**400)'' = Some (''Error: Invalid Expression'', st)"
    by (simp add: evaluate_def pre_npr_big parse_npr_big run_def safe_env_names call_value_def
        call_method_def calc_npr_def bind_res_def py_binop_def int_binop_def
        float_of_int_overflow)
  have msgs: "list_all (\<lambda>m. m \<noteq> ''Error: Invalid Expression'' \<and> m \<noteq> ''Domain Error'')
        [''Factorial needs integer'', ''nPr needs integers'', ''nCr needs integers'']"
    by simp
  show ?thesis
    by (intro conjI one two first second big safe_env_names(6) safe_env_names(7)
        safe_env_names(8) value_error overflow e1 e2 e3 e4 error_message.simps(3)
        error_message.simps(4) msgs)
qed

theorem integer_only_functions_own_message_witness:
  "py_float (VFloat (5 / 2)) = Ok (5 / 2) \<and> \<not> is_integer (5 / 2 :: real)
   \<and> call_method fresh ''_fact'' [VFloat (5 / 2)]
       = (Raise (ValueError ''Factorial needs integer''), fresh)
   \<and> py_float (VInt 5) = Ok 5
   \<and> call_method fresh ''_npr'' [VFloat (5 / 2), VInt 5]
       = (Raise (ValueError ''nPr needs integers''), fresh)
   \<and> call_method fresh ''_ncr'' [VFloat (5 / 2), VInt 5]
       = (Raise (ValueError ''nCr needs integers''), fresh)
   \<and> (2::int) ^ 1024 \<le> \<bar>2 ^ 1024\<bar>
   \<and> py_float (VInt (2 ^ 1024)) = Raise OverflowError
   \<and> call_method fresh ''_fact'' [VInt (2 ^ 1024)] = (Raise OverflowError, fresh)
   \<and> call_method fresh ''_npr'' [VFloat (5 / 2), VInt (2 ^ 1024)] = (Raise OverflowError, fresh)
   \<and> eval fresh (Call (Name ''fact'') [FloatLit (5 / 2)])
       = (Raise (ValueError ''Factorial needs integer''), fresh)
   \<and> run fresh ''fact(2.5)'' (Call (Name ''fact'') [FloatLit (5 / 2)])
       = Some (''Factorial needs integer'', fresh)
   \<and> eval fresh (Call (Name ''fact'') [IntLit (2 ^ 1024)]) = (Raise OverflowError, fresh)
   \<and> run fresh ''fact(2**1024)'' (Call (Name ''fact'') [IntLit (2 ^ 1024)])
       = Some (''Error: Invalid Expression'', fresh)"
proof -
  note t = integer_only_functions_own_message
    [of "VFloat (5 / 2)" "5 / 2" fresh "VInt 5" 5 "VInt (2 ^ 1024)" OverflowError "2 ^ 1024"
        "Call (Name ''fact'') [FloatLit (5 / 2)]" "''Factorial needs integer''" fresh
        "''fact(2.5)''"]
  note u = integer_only_functions_own_message
    [of "VFloat (5 / 2)" "5 / 2" fresh "VInt 5" 5 "VInt (2 ^ 1024)" OverflowError "2 ^ 1024"
        "Call (Name ''fact'') [IntLit (2 ^ 1024)]" "''Factorial needs integer''" fresh
        "''fact(2**1024)''"]
  have a: "py_float (VFloat (5 / 2)) = Ok (5 / 2)" by simp
  have b: "\<not> is_integer (5 / 2 :: real)" by (rule not_integer_half(1))
  have c: "py_float (VInt 5) = Ok 5" by simp
  have d: "(2::int) ^ 1024 \<le> \<bar>2 ^ 1024\<bar>" by simp
  note big = t[THEN conjunct2, THEN conjunct2, THEN conjunct2, THEN conjunct2, THEN conjunct1,
      THEN mp, OF d]
  note f1 = t[THEN conjunct1, THEN mp, OF conjI[OF a b]]
  note f2 = t[THEN conjunct2, THEN conjunct1, THEN mp, OF conjI[OF a conjI[OF c disjI1[OF b]]]]
  note f3 = t[THEN conjunct2, THEN conjunct2, THEN conjunct1, THEN mp, OF big]
  note f4 = t[THEN conjunct2, THEN conjunct2, THEN conjunct2, THEN conjunct1, THEN mp,
      OF conjI[OF a big]]
  have g1: "eval fresh (Call (Name ''fact'') [FloatLit (5 / 2)])
       = (Raise (ValueError ''Factorial needs integer''), fresh)"
    using f1 by (simp add: safe_env_names call_value_def)
  have g2: "eval fresh (Call (Name ''fact'') [IntLit (2 ^ 1024)]) = (Raise OverflowError, fresh)"
    using f3[THEN conjunct1] by (simp add: safe_env_names call_value_def)
  note r1 = t[THEN conjunct2, THEN conjunct2, THEN conjunct2, THEN conjunct2, THEN conjunct2,
      THEN conjunct2, THEN conjunct2, THEN conjunct2, THEN conjunct1, THEN mp, OF g1]
  note r2 = u[THEN conjunct2, THEN conjunct2, THEN conjunct2, THEN conjunct2, THEN conjunct2,
      THEN conjunct2, THEN conjunct2, THEN conjunct2, THEN conjunct2, THEN conjunct1, THEN mp,
      OF g2]
  show ?thesis
    by (intro conjI a b f1 c f2[THEN conjunct1] f2[THEN conjunct2] d big f3[THEN conjunct1]
        f4[THEN conjunct1] g1 r1 g2 r2)
qed

subsection \<open>Roots\<close>

lemma unit_fraction_not_integer:
  assumes "2 \<le> (k::int)"
  shows "\<not> is_integer (1 / of_int k)"
proof -
  have pos: "0 < (1::real) / of_int k" using assms by simp
  have lt: "(1::real) / of_int k < 1" using assms by simp
  have "\<lfloor>(1::real) / of_int k\<rfloor> = 0" using pos lt by (simp add: floor_eq_iff)
  with pos show ?thesis by (simp add: is_integer_def)
qed

text \<open>The \<open>k\<close>-th root of a float is within the float range.\<close>

lemma root_bounded:
  assumes "0 \<le> x" "x \<le> b" "1 \<le> b" "0 < n"
  shows "\<bar>root n x\<bar> \<le> b"
proof -
  have nonneg: "0 \<le> root n x" using assms(1) by (rule real_root_ge_zero)
  have "root n x \<le> b"
  proof (cases "x \<le> 1")
    case True
    then have "root n x \<le> root n 1" using assms(4) by (intro real_root_le_mono)
    also have "\<dots> = 1" using assms(4) by (rule real_root_one)
    finally show ?thesis using assms(3) by simp
  next
    case False
    then have "1 \<le> x" by simp
    then have "x \<le> x ^ n" using assms(4) by (intro self_le_power)
    then have "root n x \<le> root n (x ^ n)" using assms(4) by (intro real_root_le_mono)
    also have "\<dots> = x" using assms(1,4) by (intro real_root_power_cancel)
    finally show ?thesis using assms(2) by simp
  qed
  with nonneg show ?thesis by simp
qed

lemma root_lower:
  assumes "0 < c" "c \<le> 1" "c \<le> x" "0 < n"
  shows "c \<le> root n x"
proof (cases "1 \<le> x")
  case True
  have "c \<le> root n 1" using assms(2,4) by (simp add: real_root_one)
  also have "\<dots> \<le> root n x" using True assms(4) by (intro real_root_le_mono)
  finally show ?thesis .
next
  case False
  from assms(1,3) have x0: "0 \<le> x" by simp
  have "x ^ n \<le> x ^ 1" using False x0 assms(4) by (intro power_decreasing) simp_all
  then have "x ^ n \<le> x" by simp
  then have "root n (x ^ n) \<le> root n x" using assms(4) by (intro real_root_le_mono)
  moreover have "root n (x ^ n) = x" using x0 assms(4) by (intro real_root_power_cancel)
  ultimately show ?thesis using assms(3) by simp
qed

lemma float_range_root:
  assumes "0 \<le> x" "float_range x" "0 < n"
  shows "float_range (root n x)"
proof (cases "x = 0")
  case True
  then show ?thesis using assms(3) by simp
next
  case False
  with assms(1,2) have lo: "1 / 2 ^ 1022 \<le> x" and hi: "x \<le> float_max"
    by (simp_all add: float_range_def)
  have a: "\<bar>root n x\<bar> \<le> float_max"
    using assms(1) hi float_max_large assms(3) by (intro root_bounded) simp_all
  have "1 / 2 ^ 1022 \<le> root n x" using lo assms(3) by (intro root_lower) simp_all
  moreover have "0 \<le> root n x" using assms(1) by (rule real_root_ge_zero)
  ultimately have b: "1 / 2 ^ 1022 \<le> \<bar>root n x\<bar>" by simp
  from a b show ?thesis by (simp only: float_range_def simp_thms)
qed

lemma float_range_minus [simp]: "float_range (- x) = float_range x"
  by (simp add: float_range_def)

text \<open>
  \<open>x ** (1 / k)\<close> for a float \<open>x \<ge> 0\<close> and an integer \<open>k > 0\<close> is the real \<open>k\<close>-th root of
  \<open>x\<close>, again in the float range.
\<close>

lemma float_pow_root:
  assumes "0 \<le> x" "float_range x" "0 < (k::int)"
  shows "float_pow x (1 / of_int k) = Ok (root (nat k) x)"
proof (cases "k = 1")
  case True
  with assms(1,2) show ?thesis by (simp add: float_pow_def is_integer_def float_result_def)
next
  case False
  with assms have k2: "2 \<le> k" by simp
  have ni: "\<not> is_integer (1 / of_int k)" using k2 by (rule unit_fraction_not_integer)
  have ypos: "\<not> (1::real) / of_int k < 0" using assms by simp
  have "x powr (1 / of_int k) = root (nat k) x"
  proof (cases "x = 0")
    case True
    then show ?thesis using assms by simp
  next
    case False
    with assms have "0 < x" by simp
    moreover have "0 < nat k" using assms by simp
    ultimately have "root (nat k) x = x powr (1 / real (nat k))" by (simp add: root_powr_inverse)
    then show ?thesis using assms by simp
  qed
  moreover have "float_range (root (nat k) x)"
    using assms by (intro float_range_root) simp_all
  ultimately show ?thesis using ni ypos assms(1) by (simp add: float_pow_def float_result_def)
qed

lemma pre_root_a: "preprocess ''root(27,3)'' = ''root(27,3)''" by code_simp
lemma pre_root_b: "preprocess ''root(-8,3)'' = ''root(-8,3)''" by code_simp
lemma pre_root_c: "preprocess ''root(-8,2)'' = ''root(-8,2)''" by code_simp
lemma pre_root_d: "preprocess ''root(16)'' = ''root(16)''" by code_simp
lemma parse_root_a: "parse_str ''root(27,3)'' = Ok (Call (Name ''root'') [IntLit 27, IntLit 3])"
  by code_simp
lemma parse_root_b:
  "parse_str ''root(-8,3)'' = Ok (Call (Name ''root'') [UnaryOp USub (IntLit 8), IntLit 3])"
  by code_simp
lemma parse_root_c:
  "parse_str ''root(-8,2)'' = Ok (Call (Name ''root'') [UnaryOp USub (IntLit 8), IntLit 2])"
  by code_simp
lemma parse_root_d: "parse_str ''root(16)'' = Ok (Call (Name ''root'') [IntLit 16])"
  by code_simp

lemma root_values: "root 3 27 = 3" "root 3 8 = 2" "root 2 16 = 4" "root 2 4 = 2"
proof -
  have "root 2 ((2::real) ^ 2) = 2" by (rule real_root_power_cancel) simp_all
  then show "root 2 4 = 2" by simp
  have "root 3 ((3::real) ^ 3) = 3" by (rule real_root_power_cancel) simp_all
  then show "root 3 27 = 3" by simp
  have "root 3 ((2::real) ^ 3) = 2" by (rule real_root_power_cancel) simp_all
  then show "root 3 8 = 2" by simp
  have "root 2 ((4::real) ^ 2) = 4" by (rule real_root_power_cancel) simp_all
  then show "root 2 16 = 4" by simp
qed

lemma whole_floats:
  "is_integer 2" "is_integer 3" "is_integer 4" "is_integer (- 2)"
  "py_trunc 2 = 2" "py_trunc 3 = 3" "py_trunc 4 = 4" "py_trunc (- 2) = - 2"
  by (simp_all add: is_integer_def py_trunc_def)


lemma pre_root_e: "preprocess ''root(2,0.5)'' = ''root(2,0.5)''" by code_simp
lemma pre_root_f: "preprocess ''root(4,2.5)'' = ''root(4,2.5)''" by code_simp
lemma pre_root_g: "preprocess ''root(10**400,2)'' = ''root(10**400,2)''" by code_simp
lemma pre_root_h: "preprocess ''root(9007199254740993,1)'' = ''root(9007199254740993,1)''"
  by code_simp
lemma parse_root_e: "parse_str ''root(2,0.5)'' = Ok (Call (Name ''root'') [IntLit 2, FloatLit (1 / 2)])"
  by code_simp
lemma parse_root_f: "parse_str ''root(4,2.5)'' = Ok (Call (Name ''root'') [IntLit 4, FloatLit (5 / 2)])"
  by code_simp
lemma parse_root_g:
  "parse_str ''root(10**400,2)''
     = Ok (Call (Name ''root'') [BinOp (IntLit 10) Power (IntLit 400), IntLit 2])"
  by code_simp
lemma parse_root_h:
  "parse_str ''root(9007199254740993,1)''
     = Ok (Call (Name ''root'') [IntLit 9007199254740993, IntLit 1])"
  by code_simp

text \<open>Evaluation of \<open>str\<close> and \<open>float\<close> on integer literals.\<close>

lemma str_nat_numeral:
  "str_nat (numeral k) =
     (if numeral k < (10::nat) then [digit_char (numeral k)]
      else str_nat (numeral k div 10) @ [digit_char (numeral k mod 10)])"
  by (rule str_nat.simps)

lemma str_nat_small: "str_nat 0 = ''0''" "str_nat (Suc 0) = ''1''"
  by (simp_all add: str_nat.simps digit_char_def)

lemma bit_length_numeral: "bit_length (numeral k) = Suc (bit_length (numeral k div 2))"
  by (subst bit_length.simps) simp

lemma bit_length_small: "bit_length 0 = 0" "bit_length 1 = 1"
  by (simp_all add: bit_length.simps)

text \<open>\<open>2\<^sup>5\<^sup>3 + 1\<close> lies half way between two floats and goes to the even one, \<open>2\<^sup>5\<^sup>3\<close>.\<close>

lemma float_of_int_tie: "float_of_int 9007199254740993 = Ok 9007199254740992"
  by (simp add: float_of_int_def Let_def round_shift_def bit_length_numeral bit_length_small)

lemma str_int_tie: "str_int 9007199254740992 = ''9007199254740992''"
  by (simp add: str_int_def str_nat_numeral str_nat_small digit_char_def)

text \<open>
  C7, as the claim states it, fails. The index \<open>n\<close> is truncated to an int before it is
  looked at: \<open>root(2,0.5)\<close> has \<open>x \<ge> 0\<close> and \<open>n > 0\<close>, and is an Invalid-Root error, not
  \<open>2\<^sup>2 = 4\<close>; \<open>root(4,2.5)\<close> is the square root of 4, not \<open>4\<^sup>0\<^sup>.\<^sup>4\<close>.
\<close>

theorem root_index_is_truncated_counterexample:
  "evaluate fresh ''root(2,0.5)'' = Some (''Invalid Root'', fresh)
   \<and> evaluate fresh ''root(4,2.5)''
        = Some (''2'', fresh\<lparr>history := [(''root(4,2.5)'', VFloat 2)]\<rparr>)"
proof -
  have t: "py_trunc (1 / 2) = 0" "py_trunc (5 / 2) = 2" by (simp_all add: py_trunc_def)
  have p: "float_pow 4 (1 / of_int 2) = Ok (root (nat 2) 4)"
    by (intro float_pow_root float_range_small) simp_all
  have r1: "calc_root (VInt 2) (VFloat (1 / 2)) = Raise (ValueError ''Invalid Root'')"
    by (simp add: calc_root_def bind_res_def t)
  have r2: "calc_root (VInt 4) (VFloat (5 / 2)) = Ok (VFloat 2)"
    using p by (simp add: calc_root_def bind_res_def t root_values)
  have e1: "evaluate fresh ''root(2,0.5)'' = Some (''Invalid Root'', fresh)"
    by (simp add: evaluate_def pre_root_e parse_root_e run_def safe_env_names call_value_def
        call_method_def r1)
  have e2: "evaluate fresh ''root(4,2.5)''
        = Some (''2'', fresh\<lparr>history := [(''root(4,2.5)'', VFloat 2)]\<rparr>)"
    by (simp add: evaluate_def pre_root_f parse_root_f run_def safe_env_names call_value_def
        call_method_def r2 format_result_def whole_floats str_int_small fresh_def)
  from e1 e2 show ?thesis by (rule conjI)
qed

text \<open>
  C7, amended. \<open>root(x, n)\<close> (default \<open>n = 2\<close>) converts \<open>x\<close> with \<open>float\<close> and then \<open>n\<close> with
  \<open>int\<close>, which truncates a float towards zero; a failing conversion ends the call (an int
  \<open>x\<close> beyond the float range raises \<open>OverflowError\<close>, for which \<open>evaluate\<close> returns the
  invalid-expression message). With the converted \<open>x\<close>, a float in the float range, and the
  converted \<open>n\<close>: an Invalid-Root error if \<open>n \<le> 0\<close>; for \<open>x < 0\<close> a Complex-Result error
  when \<open>n\<close> is even and the negated \<open>n\<close>-th root of \<open>|x|\<close> when \<open>n\<close> is odd; for \<open>x \<ge> 0\<close> the
  real \<open>n\<close>-th root of \<open>x\<close>. So \<open>root(27,3)\<close> formats to \<open>3\<close>, \<open>root(-8,3)\<close> to \<open>-2\<close>,
  \<open>root(-8,2)\<close> is a Complex-Result error, \<open>root(16)\<close> is the square root, \<open>4\<close>,
  \<open>root(10**400,2)\<close> is an invalid expression, and \<open>root(9007199254740993,1)\<close> is the
  float nearest to its first argument.
\<close>

theorem root_cases:
  "(py_float xv = Ok x \<and> float_range x \<and> py_int nv = Ok n \<longrightarrow>
      calc_root xv nv =
        (if n \<le> 0 then Raise (ValueError ''Invalid Root'')
         else if x < 0 then
           (if even n then Raise (ValueError ''Complex Result'')
            else Ok (VFloat (- root (nat n) \<bar>x\<bar>)))
         else Ok (VFloat (root (nat n) x))))
   \<and> (py_float av = Raise e1 \<longrightarrow> calc_root av nv = Raise e1)
   \<and> (py_float xv = Ok x \<and> py_int bv = Raise e2 \<longrightarrow> calc_root xv bv = Raise e2)
   \<and> py_int (VInt k) = Ok k
   \<and> py_int (VFloat r) = Ok (if 0 \<le> r then \<lfloor>r\<rfloor> else \<lceil>r\<rceil>)
   \<and> py_float (VFloat r) = Ok r
   \<and> (\<bar>k\<bar> < 2 ^ 53 \<longrightarrow> py_float (VInt k) = Ok (of_int k))
   \<and> (2 ^ 1024 \<le> \<bar>h\<bar> \<longrightarrow> py_float (VInt h) = Raise OverflowError)
   \<and> call_method st ''_root'' [xv] = (calc_root xv (VInt 2), st)
   \<and> call_method st ''_root'' [xv, nv] = (calc_root xv nv, st)
   \<and> evaluate st ''root(27,3)''
        = Some (''3'', st\<lparr>history := history st @ [(''root(27,3)'', VFloat 3)]\<rparr>)
   \<and> evaluate st ''root(-8,3)''
        = Some (''-2'', st\<lparr>history := history st @ [(''root(-8,3)'', VFloat (- 2))]\<rparr>)
   \<and> evaluate st ''root(-8,2)'' = Some (''Complex Result'', st)
   \<and> evaluate st ''root(16)''
        = Some (''4'', st\<lparr>history := history st @ [(''root(16)'', VFloat 4)]\<rparr>)
   \<and> evaluate st ''root(10**400,2)'' = Some (''Error: Invalid Expression'', st)
   \<and> evaluate st ''root(9007199254740993,1)''
        = Some (''9007199254740992'',
                st\<lparr>history := history st
                     @ [(''root(9007199254740993,1)'', VFloat 9007199254740992)]\<rparr>)"
proof -
  have main: "calc_root xv nv =
        (if n \<le> 0 then Raise (ValueError ''Invalid Root'')
         else if x < 0 then
           (if even n then Raise (ValueError ''Complex Result'')
            else Ok (VFloat (- root (nat n) \<bar>x\<bar>)))
         else Ok (VFloat (root (nat n) x)))"
    if h: "py_float xv = Ok x" "float_range x" "py_int nv = Ok n" for xv nv x n
  proof (cases "n \<le> 0")
    case True
    with h show ?thesis by (simp add: calc_root_def bind_res_def)
  next
    case npos: False
    show ?thesis
    proof (cases "x < 0")
      case True
      then have "float_pow (- x) (1 / of_int n) = Ok (root (nat n) (- x))"
        using npos h(2) by (intro float_pow_root) simp_all
      with h npos True show ?thesis
        by (simp add: calc_root_def bind_res_def even_iff_mod_2_eq_zero abs_if)
    next
      case False
      then have "float_pow x (1 / of_int n) = Ok (root (nat n) x)"
        using npos h(2) by (intro float_pow_root) simp_all
      with h npos False show ?thesis by (simp add: calc_root_def bind_res_def)
    qed
  qed
  have c1: "py_float xv = Ok x \<and> float_range x \<and> py_int nv = Ok n \<longrightarrow>
      calc_root xv nv =
        (if n \<le> 0 then Raise (ValueError ''Invalid Root'')
         else if x < 0 then
           (if even n then Raise (ValueError ''Complex Result'')
            else Ok (VFloat (- root (nat n) \<bar>x\<bar>)))
         else Ok (VFloat (root (nat n) x)))"
    using main[of xv x nv n] by blast
  have c2: "py_float av = Raise e1 \<longrightarrow> calc_root av nv = Raise e1"
    by (simp add: calc_root_def bind_res_def)
  have c3: "py_float xv = Ok x \<and> py_int bv = Raise e2 \<longrightarrow> calc_root xv bv = Raise e2"
    by (simp add: calc_root_def bind_res_def)
  have c4: "py_int (VInt k) = Ok k" by simp
  have c5: "py_int (VFloat r) = Ok (if 0 \<le> r then \<lfloor>r\<rfloor> else \<lceil>r\<rceil>)"
    by (simp add: py_trunc_def)
  have c6: "py_float (VFloat r) = Ok r" by simp
  have c7: "\<bar>k\<bar> < 2 ^ 53 \<longrightarrow> py_float (VInt k) = Ok (of_int k)" by simp
  have c8: "2 ^ 1024 \<le> \<bar>h\<bar> \<longrightarrow> py_float (VInt h) = Raise OverflowError"
    by (simp add: float_of_int_overflow)
  have d1: "call_method st ''_root'' [xv] = (calc_root xv (VInt 2), st)"
    by (simp add: call_method_def)
  have d2: "call_method st ''_root'' [xv, nv] = (calc_root xv nv, st)"
    by (simp add: call_method_def)
  have fm: "float_range 27" "float_range (- 8)" "float_range 16"
    "float_range 9007199254740992"
    by (simp_all add: float_range_small)
  have r1: "calc_root (VInt 27) (VInt 3) = Ok (VFloat 3)"
    using main[of "VInt 27" 27 "VInt 3" 3] fm by (simp add: root_values)
  have r2: "calc_root (VInt (- 8)) (VInt 3) = Ok (VFloat (- 2))"
    using main[of "VInt (- 8)" "- 8" "VInt 3" 3] fm by (simp add: root_values)
  have r3: "calc_root (VInt (- 8)) (VInt 2) = Raise (ValueError ''Complex Result'')"
    using main[of "VInt (- 8)" "- 8" "VInt 2" 2] fm by simp
  have r4: "calc_root (VInt 16) (VInt 2) = Ok (VFloat 4)"
    using main[of "VInt 16" 16 "VInt 2" 2] fm by (simp add: root_values)
  have r5: "calc_root (VInt 9007199254740993) (VInt 1) = Ok (VFloat 9007199254740992)"
    using main[of "VInt 9007199254740993" 9007199254740992 "VInt 1" 1] fm
    by (simp add: float_of_int_tie)
  have w5: "is_integer 9007199254740992" "py_trunc 9007199254740992 = 9007199254740992"
    by (simp_all add: is_integer_def py_trunc_def)
  have e1: "evaluate st ''root(27,3)''
        = Some (''3'', st\<lparr>history := history st @ [(''root(27,3)'', VFloat 3)]\<rparr>)"
    by (simp add: evaluate_def pre_root_a parse_root_a run_def safe_env_names call_value_def
        call_method_def r1 format_result_def whole_floats str_int_small)
  have e2: "evaluate st ''root(-8,3)''
        = Some (''-2'', st\<lparr>history := history st @ [(''root(-8,3)'', VFloat (- 2))]\<rparr>)"
    by (simp add: evaluate_def pre_root_b parse_root_b run_def safe_env_names call_value_def
        call_method_def py_unary_def r2 format_result_def whole_floats str_int_small)
  have e3: "evaluate st ''root(-8,2)'' = Some (''Complex Result'', st)"
    by (simp add: evaluate_def pre_root_c parse_root_c run_def safe_env_names call_value_def
        call_method_def py_unary_def r3)
  have e4: "evaluate st ''root(16)''
        = Some (''4'', st\<lparr>history := history st @ [(''root(16)'', VFloat 4)]\<rparr>)"
    by (simp add: evaluate_def pre_root_d parse_root_d run_def safe_env_names call_value_def
        call_method_def r4 format_result_def whole_floats str_int_small)
  have e5: "evaluate st ''root(10**400,2)'' = Some (''Error: Invalid Expression'', st)"
    by (simp add: evaluate_def pre_root_g parse_root_g run_def safe_env_names call_value_def
        call_method_def calc_root_def bind_res_def py_binop_def int_binop_def
        float_of_int_overflow)
  have e6: "evaluate st ''root(9007199254740993,1)''
        = Some (''9007199254740992'',
                st\<lparr>history := history st
                     @ [(''root(9007199254740993,1)'', VFloat 9007199254740992)]\<rparr>)"
    by (simp add: evaluate_def pre_root_h parse_root_h run_def safe_env_names call_value_def
        call_method_def r5 format_result_def w5 str_int_tie)
  show ?thesis
    by (intro conjI c1 c2 c3 c4 c5 c6 c7 c8 d1 d2 e1 e2 e3 e4 e5 e6)
qed

theorem root_cases_witness:
  "py_float (VInt (- 8)) = Ok (- 8) \<and> float_range (- 8) \<and> py_int (VFloat 3) = Ok 3
   \<and> calc_root (VInt (- 8)) (VFloat 3) = Ok (VFloat (- root 3 8))
   \<and> (2::int) ^ 1024 \<le> \<bar>2 ^ 1024\<bar>
   \<and> py_float (VInt (2 ^ 1024)) = Raise OverflowError
   \<and> calc_root (VInt (2 ^ 1024)) (VFloat 3) = Raise OverflowError
   \<and> py_int VNone = Raise TypeError
   \<and> calc_root (VInt (- 8)) VNone = Raise TypeError
   \<and> \<bar>5 :: int\<bar> < 2 ^ 53
   \<and> py_float (VInt 5) = Ok 5"
proof -
  note t = root_cases[where xv = "VInt (- 8)" and x = "- 8" and nv = "VFloat 3" and n = 3
      and av = "VInt (2 ^ 1024)" and ?e1.0 = OverflowError and bv = VNone and ?e2.0 = TypeError
      and k = 5 and h = "2 ^ 1024" and st = fresh]
  have a: "py_float (VInt (- 8)) = Ok (- 8)" by simp
  have b: "float_range (- 8)" by (simp add: float_range_small)
  have c: "py_int (VFloat 3) = Ok 3" by (simp add: py_trunc_def)
  have d: "(2::int) ^ 1024 \<le> \<bar>2 ^ 1024\<bar>" by simp
  have e: "py_int VNone = Raise TypeError" by simp
  have f: "\<bar>5 :: int\<bar> < 2 ^ 53" by simp
  have m: "calc_root (VInt (- 8)) (VFloat 3) = Ok (VFloat (- root 3 8))"
    using t[THEN conjunct1, THEN mp, OF conjI[OF a conjI[OF b c]]] by simp
  note big = t[THEN conjunct2, THEN conjunct2, THEN conjunct2, THEN conjunct2, THEN conjunct2,
      THEN conjunct2, THEN conjunct2, THEN conjunct1, THEN mp, OF d]
  note small = t[THEN conjunct2, THEN conjunct2, THEN conjunct2, THEN conjunct2, THEN conjunct2,
      THEN conjunct2, THEN conjunct1, THEN mp, OF f]
  have small': "py_float (VInt 5) = Ok 5" using small by simp
  note r1 = t[THEN conjunct2, THEN conjunct1, THEN mp, OF big]
  note r2 = t[THEN conjunct2, THEN conjunct2, THEN conjunct1, THEN mp, OF conjI[OF a e]]
  show ?thesis by (intro conjI a b c m d big r1 e r2 f small')
qed

subsection \<open>The singularity check of \<open>tan\<close>\<close>

lemma float_mod_unique:
  assumes "0 < y" "0 \<le> x - y * of_int k" "x - y * of_int k < y"
  shows "float_mod x y = x - y * of_int k"
proof -
  have "of_int k \<le> x / y" using assms(1,2) by (simp add: pos_le_divide_eq mult.commute)
  moreover have "x / y < of_int k + 1"
    using assms(1,3) by (simp add: pos_divide_less_eq algebra_simps)
  ultimately have "\<lfloor>x / y\<rfloor> = k" by (simp add: floor_unique)
  then show ?thesis by (simp add: float_mod_def)
qed

lemma float_mod_range:
  assumes "0 < y"
  shows "0 \<le> float_mod x y \<and> float_mod x y < y"
proof -
  have a: "of_int \<lfloor>x / y\<rfloor> \<le> x / y" by simp
  have b: "x / y < of_int \<lfloor>x / y\<rfloor> + 1" by linarith
  from a assms have "of_int \<lfloor>x / y\<rfloor> * y \<le> x / y * y" by (intro mult_right_mono) simp_all
  then have c: "y * of_int \<lfloor>x / y\<rfloor> \<le> x" using assms by (simp add: mult.commute)
  from b assms have "x / y * y < (of_int \<lfloor>x / y\<rfloor> + 1) * y"
    by (intro mult_strict_right_mono) simp_all
  then have d: "x < y * of_int \<lfloor>x / y\<rfloor> + y" using assms by (simp add: algebra_simps)
  from c d show ?thesis by (simp add: float_mod_def)
qed

text \<open>
  Degree mode: the error is raised exactly within \<open>10\<^sup>-\<^sup>1\<^sup>2\<close> of an odd multiple of 90,
  on either side.
\<close>

lemma tan_degrees_domain:
  assumes "angle_mode st = VStr ''DEG''"
  shows "calc_tan st (VFloat x) = Raise (ValueError ''Domain Error'')
           \<longleftrightarrow> (\<exists>k::int. \<bar>x - (90 + 180 * of_int k)\<bar> < 1 / 10 ^ 12)"
proof -
  have raise_iff: "calc_tan st (VFloat x) = Raise (ValueError ''Domain Error'')
      \<longleftrightarrow> \<bar>float_mod x 180 - 90\<bar> < 1 / 10 ^ 12"
    using assms by (simp add: calc_tan_def bind_res_def)
  have "\<bar>float_mod x 180 - 90\<bar> < 1 / 10 ^ 12
      \<longleftrightarrow> (\<exists>k::int. \<bar>x - (90 + 180 * of_int k)\<bar> < 1 / 10 ^ 12)"
  proof
    assume "\<bar>float_mod x 180 - 90\<bar> < 1 / 10 ^ 12"
    then have "\<bar>x - (90 + 180 * of_int \<lfloor>x / 180\<rfloor>)\<bar> < 1 / 10 ^ 12"
      by (simp add: float_mod_def algebra_simps)
    then show "\<exists>k::int. \<bar>x - (90 + 180 * of_int k)\<bar> < 1 / 10 ^ 12" by blast
  next
    assume "\<exists>k::int. \<bar>x - (90 + 180 * of_int k)\<bar> < 1 / 10 ^ 12"
    then obtain k :: int where k: "\<bar>x - (90 + 180 * of_int k)\<bar> < 1 / 10 ^ 12" by blast
    define eps :: real where "eps = 1 / 10 ^ 12"
    have eps: "eps < 90" by (simp add: eps_def)
    from k have "\<bar>x - (90 + 180 * of_int k)\<bar> < eps" by (simp add: eps_def)
    with eps have "0 \<le> x - 180 * of_int k" "x - 180 * of_int k < 180" by linarith+
    then have fm: "float_mod x 180 = x - 180 * of_int k" by (intro float_mod_unique) simp_all
    have e: "float_mod x 180 - 90 = x - (90 + 180 * of_int k)" unfolding fm by simp
    show "\<bar>float_mod x 180 - 90\<bar> < 1 / 10 ^ 12" unfolding e by (rule k)
  qed
  with raise_iff show ?thesis by simp
qed

text \<open>
  Radian mode: the remainder \<open>(x - \<pi>/2) % \<pi>\<close> is never negative, so its absolute value
  is small only just above a singularity. Just below one the remainder is close to \<open>\<pi>\<close>.
\<close>

lemma tan_radians_domain:
  assumes "angle_mode st \<noteq> VStr ''DEG''"
  shows "calc_tan st (VFloat x) = Raise (ValueError ''Domain Error'')
           \<longleftrightarrow> (\<exists>k::int. 0 \<le> x - (pi / 2 + pi * of_int k)
                         \<and> x - (pi / 2 + pi * of_int k) < 1 / 10 ^ 12)"
proof -
  have raise_iff: "calc_tan st (VFloat x) = Raise (ValueError ''Domain Error'')
      \<longleftrightarrow> \<bar>float_mod (x - pi / 2) pi\<bar> < 1 / 10 ^ 12"
    using assms by (simp add: calc_tan_def bind_res_def)
  have rng: "0 \<le> float_mod (x - pi / 2) pi" using float_mod_range[of pi] by simp
  have "\<bar>float_mod (x - pi / 2) pi\<bar> < 1 / 10 ^ 12
      \<longleftrightarrow> (\<exists>k::int. 0 \<le> x - (pi / 2 + pi * of_int k)
                    \<and> x - (pi / 2 + pi * of_int k) < 1 / 10 ^ 12)"
  proof
    assume "\<bar>float_mod (x - pi / 2) pi\<bar> < 1 / 10 ^ 12"
    with rng have "0 \<le> x - (pi / 2 + pi * of_int \<lfloor>(x - pi / 2) / pi\<rfloor>)
        \<and> x - (pi / 2 + pi * of_int \<lfloor>(x - pi / 2) / pi\<rfloor>) < 1 / 10 ^ 12"
      by (simp add: float_mod_def algebra_simps)
    then show "\<exists>k::int. 0 \<le> x - (pi / 2 + pi * of_int k)
                    \<and> x - (pi / 2 + pi * of_int k) < 1 / 10 ^ 12" by blast
  next
    assume "\<exists>k::int. 0 \<le> x - (pi / 2 + pi * of_int k)
                    \<and> x - (pi / 2 + pi * of_int k) < 1 / 10 ^ 12"
    then obtain k :: int where k: "0 \<le> x - (pi / 2 + pi * of_int k)"
      "x - (pi / 2 + pi * of_int k) < 1 / 10 ^ 12" by blast
    have "(1::real) / 10 ^ 12 < pi" using pi_ge_two by simp
    with k have "0 \<le> (x - pi / 2) - pi * of_int k" "(x - pi / 2) - pi * of_int k < pi"
      by (simp_all add: algebra_simps)
    then have fm: "float_mod (x - pi / 2) pi = (x - pi / 2) - pi * of_int k"
      by (intro float_mod_unique) simp_all
    have e: "float_mod (x - pi / 2) pi = x - (pi / 2 + pi * of_int k)" unfolding fm by simp
    have "\<bar>x - (pi / 2 + pi * of_int k)\<bar> = x - (pi / 2 + pi * of_int k)"
      using k(1) by (rule abs_of_nonneg)
    then show "\<bar>float_mod (x - pi / 2) pi\<bar> < 1 / 10 ^ 12" unfolding e using k(2) by simp
  qed
  with raise_iff show ?thesis by simp
qed

lemma pre_tan: "preprocess ''tan(pi/2-0.0000000000005)'' = ''tan(pi/2-0.0000000000005)''"
  by code_simp

lemma parse_tan:
  "parse_str ''tan(pi/2-0.0000000000005)''
     = Ok (Call (Name ''tan'') [BinOp (BinOp (Name ''pi'') Div (IntLit 2)) Sub
                                  (FloatLit (5 / 10 ^ 13))])"
  by code_simp

text \<open>
  C2. In radian mode the check is one-sided. The angle \<open>\<pi>/2 - 5\<cdot>10\<^sup>-\<^sup>1\<^sup>3\<close> is within
  \<open>10\<^sup>-\<^sup>1\<^sup>2\<close> of the singularity \<open>\<pi>/2\<close>, yet \<open>tan\<close> raises no Domain Error there and
  returns the tangent, also when the angle is written as the expression
  \<open>tan(pi/2-0.0000000000005)\<close>. The mirrored angle above \<open>\<pi>/2\<close> raises the error, and in
  degree mode both \<open>90 - 5\<cdot>10\<^sup>-\<^sup>1\<^sup>3\<close> and \<open>90 + 5\<cdot>10\<^sup>-\<^sup>1\<^sup>3\<close> raise it.
\<close>

theorem tan_radians_check_is_one_sided:
  "\<bar>(pi / 2 - 5 / 10 ^ 13) - pi / 2\<bar> < 1 / 10 ^ 12
   \<and> parse_str (preprocess ''tan(pi/2-0.0000000000005)'')
       = Ok (Call (Name ''tan'') [BinOp (BinOp (Name ''pi'') Div (IntLit 2)) Sub
                                    (FloatLit (5 / 10 ^ 13))])
   \<and> calc_tan (fresh\<lparr>angle_mode := VStr ''RAD''\<rparr>) (VFloat (pi / 2 - 5 / 10 ^ 13))
       = Ok (VFloat (tan (pi / 2 - 5 / 10 ^ 13)))
   \<and> eval (fresh\<lparr>angle_mode := VStr ''RAD''\<rparr>)
          (Call (Name ''tan'') [BinOp (BinOp (Name ''pi'') Div (IntLit 2)) Sub
                                  (FloatLit (5 / 10 ^ 13))])
       = (Ok (VFloat (tan (pi / 2 - 5 / 10 ^ 13))), fresh\<lparr>angle_mode := VStr ''RAD''\<rparr>)
   \<and> calc_tan (fresh\<lparr>angle_mode := VStr ''RAD''\<rparr>) (VFloat (pi / 2 + 5 / 10 ^ 13))
       = Raise (ValueError ''Domain Error'')
   \<and> calc_tan fresh (VFloat (90 - 5 / 10 ^ 13)) = Raise (ValueError ''Domain Error'')
   \<and> calc_tan fresh (VFloat (90 + 5 / 10 ^ 13)) = Raise (ValueError ''Domain Error'')"
proof -
  let ?rad = "fresh\<lparr>angle_mode := VStr ''RAD''\<rparr>"
  let ?d = "(5::real) / 10 ^ 13"
  have rad: "angle_mode ?rad \<noteq> VStr ''DEG''" by simp
  have deg: "angle_mode fresh = VStr ''DEG''" by (simp add: fresh_def)
  have near: "\<bar>(pi / 2 - ?d) - pi / 2\<bar> < 1 / 10 ^ 12" by simp
  have m: "float_mod ((pi / 2 - ?d) - pi / 2) pi = pi - ?d"
  proof -
    have "float_mod ((pi / 2 - ?d) - pi / 2) pi = ((pi / 2 - ?d) - pi / 2) - pi * of_int (- 1)"
      using pi_ge_two by (intro float_mod_unique) simp_all
    then show ?thesis by simp
  qed
  have "\<not> \<bar>pi - ?d\<bar> < 1 / 10 ^ 12" using pi_ge_two by simp
  with m have below: "calc_tan ?rad (VFloat (pi / 2 - ?d)) = Ok (VFloat (tan (pi / 2 - ?d)))"
    by (simp add: calc_tan_def bind_res_def to_radians_def)
  have ev: "eval ?rad (Call (Name ''tan'') [BinOp (BinOp (Name ''pi'') Div (IntLit 2)) Sub
                                  (FloatLit (5 / 10 ^ 13))])
       = (Ok (VFloat (tan (pi / 2 - ?d))), ?rad)"
  proof -
    have h: "1 / 2 ^ 64 \<le> \<bar>pi / 2\<bar>" "\<bar>pi / 2\<bar> \<le> 2 ^ 64"
      using pi_ge_two pi_less_4 by simp_all
    have s: "1 / 2 ^ 64 \<le> \<bar>pi / 2 - ?d\<bar>" "\<bar>pi / 2 - ?d\<bar> \<le> 2 ^ 64"
      using pi_ge_two pi_less_4 by simp_all
    have q: "float_value (pi / 2) = Ok (VFloat (pi / 2))" using h by (rule float_value_small)
    have r: "float_value (pi / 2 - ?d) = Ok (VFloat (pi / 2 - ?d))"
      using s by (rule float_value_small)
    show ?thesis
      using below q r
      by (simp add: safe_env_names py_binop_def float_binop_def bind_res_def call_value_def
          call_method_def)
  qed
  have "\<exists>k::int. 0 \<le> (pi / 2 + ?d) - (pi / 2 + pi * of_int k)
                 \<and> (pi / 2 + ?d) - (pi / 2 + pi * of_int k) < 1 / 10 ^ 12"
    by (rule exI[of _ 0]) simp
  then have above: "calc_tan ?rad (VFloat (pi / 2 + ?d)) = Raise (ValueError ''Domain Error'')"
    using tan_radians_domain[OF rad] by blast
  have "\<exists>k::int. \<bar>(90 - ?d) - (90 + 180 * of_int k)\<bar> < 1 / 10 ^ 12"
    by (rule exI[of _ 0]) simp
  then have d1: "calc_tan fresh (VFloat (90 - ?d)) = Raise (ValueError ''Domain Error'')"
    using tan_degrees_domain[OF deg] by blast
  have "\<exists>k::int. \<bar>(90 + ?d) - (90 + 180 * of_int k)\<bar> < 1 / 10 ^ 12"
    by (rule exI[of _ 0]) simp
  then have d2: "calc_tan fresh (VFloat (90 + ?d)) = Raise (ValueError ''Domain Error'')"
    using tan_degrees_domain[OF deg] by blast
  have ps: "parse_str (preprocess ''tan(pi/2-0.0000000000005)'')
       = Ok (Call (Name ''tan'') [BinOp (BinOp (Name ''pi'') Div (IntLit 2)) Sub
                                    (FloatLit (5 / 10 ^ 13))])"
    unfolding pre_tan by (rule parse_tan)
  from near ps below ev above d1 d2 show ?thesis by blast
qed


subsection \<open>The angle mode\<close>

text \<open>
  The spec's words for what \<open>set_angle_mode\<close> accepts: \<open>mode\<close> spells the word \<open>w\<close> when it
  is \<open>w\<close> in any mix of upper and lower case, with white space before and after.
\<close>

definition spells :: "string \<Rightarrow> string \<Rightarrow> bool" where
  "spells w mode =
     (\<exists>l c r. mode = l @ c @ r \<and> list_all is_space l \<and> list_all is_space r \<and> py_upper c = w)"

lemma upper_char_space: "is_space (upper_char c) = is_space c"
proof (cases "map_of (zip ''abcdefghijklmnopqrstuvwxyz'' ''ABCDEFGHIJKLMNOPQRSTUVWXYZ'') c")
  case None
  then show ?thesis by (simp add: upper_char_def)
next
  case (Some u)
  then have "(c, u) \<in> set (zip ''abcdefghijklmnopqrstuvwxyz'' ''ABCDEFGHIJKLMNOPQRSTUVWXYZ'')"
    by (rule map_of_SomeD)
  then have "\<not> is_space c \<and> \<not> is_space u" by (auto simp: is_space_def)
  with Some show ?thesis by (simp add: upper_char_def)
qed

lemma upper_spaces: "list_all is_space (py_upper s) = list_all is_space s"
  by (induction s) (simp_all add: py_upper_def upper_char_space)

lemma strip_padded:
  assumes "list_all is_space l" "list_all is_space r" "w \<noteq> []"
    "\<not> is_space (hd w)" "\<not> is_space (last w)"
  shows "py_strip (l @ w @ r) = w"
proof -
  have a: "dropWhile is_space (l @ w @ r) = w @ r"
    using assms(1,3,4) by (cases w) (simp_all add: dropWhile_append3 list_all_iff dropWhile_append)
  have "dropWhile is_space (rev r @ rev w) = rev w"
    using assms(2,3,5)
    by (cases "rev w") (simp_all add: list_all_iff dropWhile_append hd_rev)
  with a show ?thesis by (simp add: py_strip_def)
qed

lemma strip_decompose:
  "\<exists>l r. s = l @ py_strip s @ r \<and> list_all is_space l \<and> list_all is_space r"
proof -
  let ?d = "dropWhile is_space s"
  have s: "s = takeWhile is_space s @ ?d" by simp
  have "rev (dropWhile is_space (rev ?d)) @ rev (takeWhile is_space (rev ?d))
      = rev (takeWhile is_space (rev ?d) @ dropWhile is_space (rev ?d))"
    by (simp only: rev_append)
  also have "\<dots> = rev (rev ?d)" by (simp only: takeWhile_dropWhile_id)
  also have "\<dots> = ?d" by (simp only: rev_rev_ident)
  finally have d: "?d = py_strip s @ rev (takeWhile is_space (rev ?d))"
    unfolding py_strip_def by (rule sym)
  have l: "list_all is_space (takeWhile is_space s)"
    by (simp add: list_all_iff) (meson set_takeWhileD)
  have r: "list_all is_space (rev (takeWhile is_space (rev ?d)))"
    by (simp add: list_all_iff) (meson set_takeWhileD)
  from s d have "s = takeWhile is_space s @ py_strip s @ rev (takeWhile is_space (rev ?d))"
    by simp
  with l r show ?thesis by blast
qed

text \<open>\<open>mode.upper().strip()\<close> equals a word without outer white space exactly when \<open>mode\<close> spells it.\<close>

lemma upper_strip_spells:
  assumes "w \<noteq> []" "\<not> is_space (hd w)" "\<not> is_space (last w)"
  shows "py_strip (py_upper mode) = w \<longleftrightarrow> spells w mode"
proof
  assume eq: "py_strip (py_upper mode) = w"
  from strip_decompose[of "py_upper mode"] eq obtain l r where
    d: "py_upper mode = l @ w @ r" "list_all is_space l" "list_all is_space r" by auto
  from d(1) have "map upper_char mode = l @ (w @ r)" by (simp add: py_upper_def)
  then obtain l' m' where m1: "mode = l' @ m'" "l = map upper_char l'"
      "w @ r = map upper_char m'"
    by (auto simp: map_eq_append_conv)
  from m1(3) have "map upper_char m' = w @ r" by (rule sym)
  then obtain c' r' where m2: "m' = c' @ r'" "w = map upper_char c'" "r = map upper_char r'"
    by (auto simp: map_eq_append_conv)
  from d(2) m1(2) have sl: "list_all is_space l'"
    using upper_spaces[of l'] by (simp add: py_upper_def)
  from d(3) m2(3) have sr: "list_all is_space r'"
    using upper_spaces[of r'] by (simp add: py_upper_def)
  have "mode = l' @ c' @ r'" using m1(1) m2(1) by simp
  moreover have "py_upper c' = w" using m2(2) by (simp add: py_upper_def)
  ultimately show "spells w mode" unfolding spells_def using sl sr by blast
next
  assume "spells w mode"
  then obtain l c r where m: "mode = l @ c @ r" "list_all is_space l" "list_all is_space r"
      "py_upper c = w"
    unfolding spells_def by blast
  have "py_upper mode = py_upper l @ w @ py_upper r"
    using m(1,4) by (simp add: py_upper_def)
  moreover have "list_all is_space (py_upper l)" "list_all is_space (py_upper r)"
    using m(2,3) by (simp_all add: upper_spaces)
  ultimately show "py_strip (py_upper mode) = w" using assms by (simp add: strip_padded)
qed

text \<open>
  \<open>set_angle_mode\<close> by itself does what C5 says of it: it accepts exactly the spellings of
  \<open>DEG\<close> and \<open>RAD\<close> and stores the word in capitals; otherwise it raises the
  \<open>ValueError\<close> and leaves the state as it was.
\<close>

lemma set_angle_mode_accepts:
  "set_angle_mode st mode =
     (if spells ''DEG'' mode then (Ok VNone, st\<lparr>angle_mode := VStr ''DEG''\<rparr>)
      else if spells ''RAD'' mode then (Ok VNone, st\<lparr>angle_mode := VStr ''RAD''\<rparr>)
      else (Raise (ValueError (''Angle mode must be '' @ [CHR 0x27] @ ''DEG'' @ [CHR 0x27]
                               @ '' or '' @ [CHR 0x27] @ ''RAD'' @ [CHR 0x27])), st))"
proof -
  have d: "py_strip (py_upper mode) = ''DEG'' \<longleftrightarrow> spells ''DEG'' mode"
    by (rule upper_strip_spells) (simp_all add: is_space_def)
  have r: "py_strip (py_upper mode) = ''RAD'' \<longleftrightarrow> spells ''RAD'' mode"
    by (rule upper_strip_spells) (simp_all add: is_space_def)
  show ?thesis
  proof (cases "py_strip (py_upper mode) = ''DEG''")
    case True
    with d show ?thesis by (simp add: set_angle_mode_def)
  next
    case nd: False
    show ?thesis
    proof (cases "py_strip (py_upper mode) = ''RAD''")
      case True
      with nd d r show ?thesis by (simp add: set_angle_mode_def)
    next
      case False
      with nd d r show ?thesis by (simp add: set_angle_mode_def Let_def)
    qed
  qed
qed

text \<open>The settings operations, and the invariant they keep.\<close>

datatype setting = SetAngleMode string | ClearHistory | GetHistory

fun apply_setting :: "calc \<Rightarrow> setting \<Rightarrow> calc" where
  "apply_setting st (SetAngleMode m) = snd (set_angle_mode st m)"
| "apply_setting st ClearHistory = clear_history st"
| "apply_setting st GetHistory = st"

definition valid_mode :: "calc \<Rightarrow> bool" where
  "valid_mode st = (angle_mode st = VStr ''DEG'' \<or> angle_mode st = VStr ''RAD'')"

lemma settings_keep_valid_mode:
  "valid_mode st \<Longrightarrow> valid_mode (foldl apply_setting st ops)"
proof (induction ops arbitrary: st)
  case Nil
  then show ?case by simp
next
  case (Cons a ops)
  have "valid_mode (apply_setting st a)"
  proof (cases a)
    case (SetAngleMode m)
    with Cons.prems show ?thesis
      by (auto simp: valid_mode_def set_angle_mode_def Let_def)
  next
    case ClearHistory
    with Cons.prems show ?thesis by (simp add: valid_mode_def clear_history_def)
  next
    case GetHistory
    with Cons.prems show ?thesis by simp
  qed
  then show ?case by (simp add: Cons.IH)
qed

text \<open>
  C5. The angle mode is not confined to the two values. The constructor stores any
  argument without the check that \<open>set_angle_mode\<close> makes, so \<open>CalculatorLogic("GRAD")\<close>
  holds \<open>GRAD\<close>, and a rejected \<open>set_angle_mode\<close> leaves it there. On a default instance,
  the expression \<open>sin.__self__.__init__(1)\<close> makes \<open>evaluate\<close> store the integer 1 as the
  angle mode.
\<close>

theorem angle_mode_outside_enumeration:
  "angle_mode (CalculatorLogic_init fresh (VStr ''GRAD'')) = VStr ''GRAD''
   \<and> angle_mode (snd (set_angle_mode (CalculatorLogic_init fresh (VStr ''GRAD'')) ''degrees''))
       = VStr ''GRAD''
   \<and> \<not> valid_mode (CalculatorLogic_init fresh (VStr ''GRAD''))
   \<and> valid_mode fresh
   \<and> evaluate fresh ''sin.__self__.__init__(1)''
       = Some (''None'', fresh\<lparr>angle_mode := VInt 1,
                                history := [(''sin.__self__.__init__(1)'', VNone)]\<rparr>)
   \<and> \<not> valid_mode (fresh\<lparr>angle_mode := VInt 1,
                            history := [(''sin.__self__.__init__(1)'', VNone)]\<rparr>)"
proof -
  have a: "angle_mode (CalculatorLogic_init fresh (VStr ''GRAD'')) = VStr ''GRAD''"
    by (simp add: CalculatorLogic_init_def)
  have up: "py_strip (py_upper ''degrees'') = ''DEGREES''" by code_simp
  have b: "angle_mode (snd (set_angle_mode (CalculatorLogic_init fresh (VStr ''GRAD'')) ''degrees''))
       = VStr ''GRAD''"
    by (simp add: set_angle_mode_def up CalculatorLogic_init_def)
  have c: "\<not> valid_mode (CalculatorLogic_init fresh (VStr ''GRAD''))"
    by (simp add: valid_mode_def CalculatorLogic_init_def)
  have d: "valid_mode fresh" by (simp add: valid_mode_def fresh_def)
  have e: "evaluate fresh ''sin.__self__.__init__(1)''
       = Some (''None'', fresh\<lparr>angle_mode := VInt 1,
                                history := [(''sin.__self__.__init__(1)'', VNone)]\<rparr>)"
    by (simp add: evaluate_def pre_init_arg parse_init_arg run_def safe_env_names
        instance_methods call_value_def call_init CalculatorLogic_init_def format_result_def
        py_str_def fresh_def)
  have f: "\<not> valid_mode (fresh\<lparr>angle_mode := VInt 1,
                            history := [(''sin.__self__.__init__(1)'', VNone)]\<rparr>)"
    by (simp add: valid_mode_def)
  from a b c d e f show ?thesis by blast
qed


subsection \<open>Formatting\<close>

lemma digit_cases:
  assumes "d < (10::nat)"
  shows "d = 0 \<or> d = 1 \<or> d = 2 \<or> d = 3 \<or> d = 4 \<or> d = 5 \<or> d = 6 \<or> d = 7 \<or> d = 8 \<or> d = 9"
  using assms by arith

lemma digit_val_char: "d < 10 \<Longrightarrow> digit_val (digit_char d) = int d"
  using digit_cases[of d] by (auto simp: digit_char_def digit_val_def)

lemma digit_char_digit: "d < 10 \<Longrightarrow> digit_char d \<in> set ''0123456789''"
  using digit_cases[of d] by (auto simp: digit_char_def)

lemma str_nat_digits: "set (str_nat n) \<subseteq> set ''0123456789''"
proof (induction n rule: str_nat.induct)
  case (1 n)
  show ?case
  proof (cases "n < 10")
    case True
    then have "str_nat n = [digit_char n]" by (subst str_nat.simps) simp
    with True digit_char_digit[of n] show ?thesis by simp
  next
    case False
    then have s: "str_nat n = str_nat (n div 10) @ [digit_char (n mod 10)]"
      by (subst str_nat.simps) simp
    have "digit_char (n mod 10) \<in> set ''0123456789''" by (rule digit_char_digit) simp
    with 1[OF False] show ?thesis unfolding s by simp
  qed
qed

lemma str_nat_nonempty: "str_nat n \<noteq> []"
  by (subst str_nat.simps) simp

lemma int_of_digits_snoc: "int_of_digits (xs @ [c]) = 10 * int_of_digits xs + digit_val c"
  by (simp add: int_of_digits_def)

lemma int_of_digits_str_nat: "int_of_digits (str_nat n) = int n"
proof (induction n rule: str_nat.induct)
  case (1 n)
  show ?case
  proof (cases "n < 10")
    case True
    then have "str_nat n = [digit_char n]" by (subst str_nat.simps) simp
    with True show ?thesis by (simp add: int_of_digits_def digit_val_char)
  next
    case False
    then have s: "str_nat n = str_nat (n div 10) @ [digit_char (n mod 10)]"
      by (subst str_nat.simps) simp
    have "int_of_digits (str_nat n) = 10 * int (n div 10) + int (n mod 10)"
      unfolding s int_of_digits_snoc by (simp add: 1[OF False] digit_val_char)
    also have "\<dots> = int (10 * (n div 10) + n mod 10)"
      by (simp only: of_nat_add of_nat_mult of_nat_numeral)
    also have "10 * (n div 10) + n mod 10 = n" by simp
    finally show ?thesis .
  qed
qed

text \<open>The text of an integer reads back as the integer, and has no character but digits and a sign.\<close>

lemma int_of_str_int: "int_of_str (str_int n) = n"
proof (cases "n < 0")
  case True
  then show ?thesis by (simp add: str_int_def int_of_str_def int_of_digits_str_nat)
next
  case False
  obtain c cs where s: "str_nat (nat n) = c # cs" using str_nat_nonempty[of "nat n"] by (cases "str_nat (nat n)") auto
  have "c \<in> set (str_nat (nat n))" by (simp add: s)
  then have "c \<in> set ''0123456789''" using str_nat_digits by blast
  then have "c \<noteq> CHR ''-''" by auto
  then have "int_of_str (str_nat (nat n)) = int_of_digits (str_nat (nat n))"
    by (simp add: int_of_str_def s)
  with False show ?thesis by (simp add: str_int_def int_of_digits_str_nat)
qed

lemma str_int_chars: "set (str_int n) \<subseteq> set ''-0123456789''"
proof -
  have sub: "set ''0123456789'' \<subseteq> set ''-0123456789''" by (rule set_subset_Cons)
  have sign: "CHR ''-'' \<in> set ''-0123456789''" by (rule list.set_intros(1))
  show ?thesis
  proof (cases "n < 0")
    case True
    then have s: "str_int n = CHR ''-'' # str_nat (nat (- n))" by (simp add: str_int_def)
    have "set (str_nat (nat (- n))) \<subseteq> set ''-0123456789''"
      using str_nat_digits sub by (rule subset_trans)
    with sign have "insert (CHR ''-'') (set (str_nat (nat (- n)))) \<subseteq> set ''-0123456789''"
      by (rule insert_subsetI)
    then show ?thesis by (simp only: s list.set)
  next
    case False
    then have s: "str_int n = str_nat (nat n)" by (simp add: str_int_def)
    show ?thesis unfolding s using str_nat_digits sub by (rule subset_trans)
  qed
qed

lemma trunc_of_whole: "is_integer x \<Longrightarrow> py_trunc x = \<lfloor>x\<rfloor>"
proof -
  assume "is_integer x"
  then have e: "x = of_int \<lfloor>x\<rfloor>" unfolding is_integer_def by (rule sym)
  have "\<lceil>x\<rceil> = \<lceil>of_int \<lfloor>x\<rfloor> :: real\<rceil>" by (rule arg_cong[of _ _ ceiling, OF e])
  also have "\<dots> = \<lfloor>x\<rfloor>" by (rule ceiling_of_int)
  finally show ?thesis by (simp add: py_trunc_def)
qed

text \<open>Rounding moves a number by at most one half, to one of the two integers around it.\<close>

lemma round_half_even_near:
  "\<bar>of_int (round_half_even x) - x\<bar> \<le> 1 / 2
   \<and> \<lfloor>x\<rfloor> \<le> round_half_even x \<and> round_half_even x \<le> \<lfloor>x\<rfloor> + 1"
proof -
  define f where "f = \<lfloor>x\<rfloor>"
  define d where "d = x - of_int f"
  have d0: "0 \<le> d" "d < 1" unfolding d_def f_def by linarith+
  have x: "of_int f - x = - d" "of_int (f + 1) - x = 1 - d" by (simp_all add: d_def)
  have r: "round_half_even x =
      (if d < 1 / 2 then f else if 1 / 2 < d then f + 1 else if even f then f else f + 1)"
    by (simp add: round_half_even_def Let_def f_def d_def)
  consider "d < 1 / 2" | "1 / 2 < d" | "d = 1 / 2" by linarith
  then have "\<bar>of_int (round_half_even x) - x\<bar> \<le> 1 / 2
      \<and> f \<le> round_half_even x \<and> round_half_even x \<le> f + 1"
  proof cases
    case 1
    then have "round_half_even x = f" by (simp add: r)
    with 1 d0 x(1) show ?thesis by simp
  next
    case 2
    then have "round_half_even x = f + 1" by (simp add: r)
    with 2 d0 x(2) show ?thesis by simp
  next
    case 3
    then have "round_half_even x = f \<or> round_half_even x = f + 1" by (simp add: r)
    with 3 x show ?thesis by auto
  qed
  then show ?thesis by (simp add: f_def)
qed

lemma powr_powi: "(10::real) powr of_int k = 10 powi k"
  by (simp add: powr_real_of_int power_int_def power_one_over inverse_eq_divide)

lemma powr_powi_next: "(10::real) powr (of_int k + 1) = 10 powi (k + 1)"
  using powr_powi[of "k + 1"] by simp

lemma log10_bracket:
  assumes "0 < a"
  shows "10 powi \<lfloor>log 10 a\<rfloor> \<le> a \<and> a < 10 powi (\<lfloor>log 10 a\<rfloor> + 1)"
  using floor_log_eq_powr_iff[of a 10 "\<lfloor>log 10 a\<rfloor>"] assms
  by (simp add: powr_powi powr_powi_next)

lemma floor_log10:
  assumes "0 < a" "10 powi e \<le> a" "a < 10 powi (e + 1)"
  shows "\<lfloor>log 10 a\<rfloor> = e"
  using floor_log_eq_powr_iff[of a 10 e] assms by (simp add: powr_powi powr_powi_next)

text \<open>
  The digits of \<open>.12g\<close>: a twelve-digit integer \<open>m\<close> and an exponent \<open>e\<close> with
  \<open>m \<cdot> 10\<^sup>e\<^sup>-\<^sup>1\<^sup>1\<close> within half a unit of the twelfth digit of \<open>a\<close>.
\<close>

lemma sig_digits_correct:
  assumes "0 < a" "sig_digits a = (m, e)"
  shows "10 ^ 11 \<le> m \<and> m < 10 ^ 12 \<and> \<bar>a - of_int m * 10 powi (e - 11)\<bar> \<le> 10 powi (e - 11) / 2"
proof -
  define e0 where "e0 = \<lfloor>log 10 a\<rfloor>"
  define p :: real where "p = 10 powi (e0 - 11)"
  define t where "t = a / p"
  define m0 where "m0 = round_half_even t"
  have p: "0 < p" by (simp add: p_def)
  have lo: "10 powi e0 = 10 ^ 11 * p"
  proof -
    have "e0 = (e0 - 11) + 11" by simp
    then have "(10::real) powi e0 = 10 powi ((e0 - 11) + 11)" by (rule arg_cong)
    also have "\<dots> = 10 powi (e0 - 11) * 10 powi 11" by (rule power_int_add) simp
    finally show ?thesis by (simp add: p_def)
  qed
  have hi: "10 powi (e0 + 1) = 10 ^ 12 * p"
  proof -
    have "e0 + 1 = (e0 - 11) + 12" by simp
    then have "(10::real) powi (e0 + 1) = 10 powi ((e0 - 11) + 12)" by (rule arg_cong)
    also have "\<dots> = 10 powi (e0 - 11) * 10 powi 12" by (rule power_int_add) simp
    finally show ?thesis by (simp add: p_def)
  qed
  have hi1: "10 powi (e0 + 1 - 11) = 10 * p"
  proof -
    have "e0 + 1 - 11 = (e0 - 11) + 1" by simp
    then have "(10::real) powi (e0 + 1 - 11) = 10 powi ((e0 - 11) + 1)" by (rule arg_cong)
    also have "\<dots> = 10 powi (e0 - 11) * 10 powi 1" by (rule power_int_add) simp
    finally show ?thesis by (simp add: p_def)
  qed
  from log10_bracket[OF assms(1)] lo hi
  have br: "10 ^ 11 * p \<le> a" "a < 10 ^ 12 * p" by (simp_all add: e0_def)
  have a: "a = t * p" using p by (simp add: t_def)
  have t1: "10 ^ 11 \<le> t" using br(1) p by (simp add: t_def pos_le_divide_eq)
  have t2: "t < 10 ^ 12" using br(2) p by (simp add: t_def pos_divide_less_eq)
  have f1: "(10::int) ^ 11 \<le> \<lfloor>t\<rfloor>" using t1 by (simp add: le_floor_iff)
  have f2: "\<lfloor>t\<rfloor> < (10::int) ^ 12" using t2 by (simp add: floor_less_iff)
  from round_half_even_near[of t]
  have r: "\<bar>of_int m0 - t\<bar> \<le> 1 / 2" "\<lfloor>t\<rfloor> \<le> m0" "m0 \<le> \<lfloor>t\<rfloor> + 1" by (simp_all add: m0_def)
  have m1: "10 ^ 11 \<le> m0" using f1 r(2) by linarith
  have m2: "m0 \<le> 10 ^ 12" using f2 r(3) by linarith
  have err: "\<bar>a - of_int m0 * p\<bar> \<le> p / 2"
  proof -
    have "a - of_int m0 * p = (t - of_int m0) * p" by (simp add: a algebra_simps)
    then have "\<bar>a - of_int m0 * p\<bar> = \<bar>t - of_int m0\<bar> * p" using p by (simp add: abs_mult)
    also have "\<bar>t - of_int m0\<bar> = \<bar>of_int m0 - t\<bar>" by (rule abs_minus_commute)
    also have "\<bar>of_int m0 - t\<bar> * p \<le> 1 / 2 * p" using r(1) p by (intro mult_right_mono) simp_all
    finally show ?thesis by simp
  qed
  have sd: "sig_digits a = (if m0 = 10 ^ 12 then (10 ^ 11, e0 + 1) else (m0, e0))"
    by (simp add: sig_digits_def Let_def e0_def m0_def t_def p_def)
  show ?thesis
  proof (cases "m0 = 10 ^ 12")
    case True
    with sd assms(2) have me: "m = 10 ^ 11" "e = e0 + 1" by simp_all
    have "\<bar>a - of_int m * 10 powi (e - 11)\<bar> = \<bar>a - of_int m0 * p\<bar>"
      unfolding me True hi1 by simp
    also have "\<dots> \<le> p / 2" by (rule err)
    also have "\<dots> \<le> 10 powi (e - 11) / 2" unfolding me hi1 using p by simp
    finally show ?thesis by (simp add: me)
  next
    case False
    with sd assms(2) have me: "m = m0" "e = e0" by simp_all
    from False m2 have "m0 < 10 ^ 12" by simp
    with m1 err show ?thesis by (simp add: me p_def)
  qed
qed

text \<open>Dropping trailing zeros removes zeros only, and leaves none at the end.\<close>

lemma strip_zeros_last: "strip_zeros s \<noteq> [] \<Longrightarrow> last (strip_zeros s) \<noteq> CHR ''0''"
proof -
  assume n: "strip_zeros s \<noteq> []"
  then have d: "dropWhile (\<lambda>c. c = CHR ''0'') (rev s) \<noteq> []" by (simp add: strip_zeros_def)
  have "last (strip_zeros s) = hd (dropWhile (\<lambda>c. c = CHR ''0'') (rev s))"
    by (simp add: strip_zeros_def last_rev)
  with hd_dropWhile[OF d] show ?thesis by simp
qed

lemma strip_zeros_only: "\<exists>k. s = strip_zeros s @ replicate k (CHR ''0'')"
proof -
  let ?z = "takeWhile (\<lambda>c. c = CHR ''0'') (rev s)"
  have "strip_zeros s @ rev ?z = rev (?z @ dropWhile (\<lambda>c. c = CHR ''0'') (rev s))"
    by (simp only: strip_zeros_def rev_append)
  also have "\<dots> = rev (rev s)" by (simp only: takeWhile_dropWhile_id)
  finally have s: "s = strip_zeros s @ rev ?z" by simp
  have "\<forall>c \<in> set (rev ?z). c = CHR ''0''" by (auto dest: set_takeWhileD)
  then have z: "replicate (length (rev ?z)) (CHR ''0'') = rev ?z"
    by (rule replicate_length_same)
  have "s = strip_zeros s @ replicate (length (rev ?z)) (CHR ''0'')"
    by (subst z) (rule s)
  then show ?thesis by (rule exI)
qed

lemma half_digits: "sig_digits (1 / 2) = (500000000000, - 1)"
proof -
  have e: "\<lfloor>log 10 (1 / 2 :: real)\<rfloor> = - 1" by (rule floor_log10) simp_all
  have r: "round_half_even 500000000000 = 500000000000"
    by (simp add: round_half_even_def)
  show ?thesis by (simp add: sig_digits_def e r)
qed

lemma render_examples:
  "render_g (500000000000, - 1) = ''0.5''"
  "render_g (333333333333, - 1) = ''0.333333333333''"
  "render_g (123456789012, 12) = ''1.23456789012e+12''"
  "render_g (100000000000, - 5) = ''1e-05''"
  "strip_zeros ''500'' = ''5''"
  "str_int 15511210043330985984000000 = ''15511210043330985984000000''"
  by (simp_all add: render_g_def Let_def with_point_def strip_zeros_def str_int_def
      str_nat_numeral str_nat_small digit_char_def)

text \<open>The integer part of a float has far fewer digits than the limit of \<open>str\<close>.\<close>

lemma float_below_str_limit:
  assumes "\<bar>x\<bar> \<le> float_max"
  shows "\<not> 10 ^ max_str_digits \<le> \<bar>py_trunc x\<bar>"
proof -
  have t: "\<bar>of_int (py_trunc x) :: real\<bar> \<le> \<bar>x\<bar>"
  proof (cases "0 \<le> x")
    case True
    then have "0 \<le> \<lfloor>x\<rfloor>" by simp
    moreover have "of_int \<lfloor>x\<rfloor> \<le> x" by simp
    ultimately show ?thesis using True by (simp add: py_trunc_def)
  next
    case False
    then have "\<lceil>x\<rceil> \<le> 0" by (simp add: ceiling_le_zero)
    moreover have "x \<le> of_int \<lceil>x\<rceil>" by simp
    ultimately show ?thesis using False by (simp add: py_trunc_def)
  qed
  have "\<bar>x\<bar> < 2 ^ 1024" using assms by (simp add: float_max_def)
  with t have "of_int \<bar>py_trunc x\<bar> < (of_int (2 ^ 1024) :: real)" by simp
  then have a: "\<bar>py_trunc x\<bar> < 2 ^ 1024" by (simp only: of_int_less_iff)
  have "(2::int) ^ 1024 \<le> 10 ^ 1024" by (rule power_mono) simp_all
  also have "(10::int) ^ 1024 \<le> 10 ^ max_str_digits"
    by (rule power_increasing) (simp_all add: max_str_digits_def)
  finally have "(2::int) ^ 1024 \<le> 10 ^ max_str_digits" .
  with a have "\<bar>py_trunc x\<bar> < 10 ^ max_str_digits" by (rule less_le_trans)
  then show ?thesis by (simp only: not_le)
qed

text \<open>
  The formatter on the results within the limits. A whole-valued float is rendered as the plain integer
  text of its value, which has no character but digits and a sign; every other float is
  rendered by the \<open>.12g\<close> format, whose digits are the twelve significant digits nearest
  to the value; an int of at most 4300 digits is rendered by its exact decimal text:
  reading the text back gives the integer.
\<close>

lemma format_result_numbers:
  "(is_integer x \<and> \<bar>x\<bar> \<le> float_max \<longrightarrow> format_result st (VFloat x) = Ok (str_int \<lfloor>x\<rfloor>))
   \<and> (\<not> is_integer x \<longrightarrow> format_result st (VFloat x) = Ok (fmt_12g x))
   \<and> fmt_12g (1 / 2) = ''0.5''
   \<and> (0 < a \<and> sig_digits a = (m, e) \<longrightarrow>
        10 ^ 11 \<le> m \<and> m < 10 ^ 12
        \<and> \<bar>a - of_int m * 10 powi (e - 11)\<bar> \<le> 10 powi (e - 11) / 2)
   \<and> (\<bar>n\<bar> < 10 ^ max_str_digits \<longrightarrow> format_result st (VInt n) = Ok (str_int n))
   \<and> int_of_str (str_int n) = n
   \<and> set (str_int n) \<subseteq> set ''-0123456789''"
proof -
  have c1: "is_integer x \<and> \<bar>x\<bar> \<le> float_max
      \<longrightarrow> format_result st (VFloat x) = Ok (str_int \<lfloor>x\<rfloor>)"
  proof (intro impI, elim conjE)
    assume i: "is_integer x" and b: "\<bar>x\<bar> \<le> float_max"
    from float_below_str_limit[OF b] have "int_str (py_trunc x) = Ok (str_int (py_trunc x))"
      by (simp add: int_str_def)
    with i show "format_result st (VFloat x) = Ok (str_int \<lfloor>x\<rfloor>)"
      by (simp add: format_result_def trunc_of_whole)
  qed
  have c2: "\<not> is_integer x \<longrightarrow> format_result st (VFloat x) = Ok (fmt_12g x)"
    by (simp add: format_result_def)
  have ex: "fmt_12g (1 / 2) = ''0.5''"
    by (simp add: fmt_12g_def half_digits render_examples(1))
  have c3: "0 < a \<and> sig_digits a = (m, e) \<longrightarrow>
        10 ^ 11 \<le> m \<and> m < 10 ^ 12
        \<and> \<bar>a - of_int m * 10 powi (e - 11)\<bar> \<le> 10 powi (e - 11) / 2"
    using sig_digits_correct[of a m e] by blast
  have c4: "\<bar>n\<bar> < 10 ^ max_str_digits \<longrightarrow> format_result st (VInt n) = Ok (str_int n)"
    by (simp add: format_result_def py_str_def int_str_def not_le)
  show ?thesis
    by (intro conjI c1 c2 ex c3 c4 int_of_str_int str_int_chars)
qed

subsection \<open>Integers beyond the limit of \<open>str\<close>\<close>

lemma pre_big: "preprocess ''10**4300'' = ''10**4300''" by code_simp
lemma parse_big: "parse_str ''10**4300'' = Ok (BinOp (IntLit 10) Power (IntLit 4300))"
  by code_simp
lemma pre_fact_25: "preprocess ''fact(25)'' = ''fact(25)''" by code_simp
lemma parse_fact_25: "parse_str ''fact(25)'' = Ok (Call (Name ''fact'') [IntLit 25])"
  by code_simp
lemma pre_fact_big: "preprocess ''fact(3000)'' = ''fact(3000)''" by code_simp
lemma parse_fact_big: "parse_str ''fact(3000)'' = Ok (Call (Name ''fact'') [IntLit 3000])"
  by code_simp

lemma int_str_limit:
  "10 ^ max_str_digits \<le> \<bar>n\<bar> \<Longrightarrow> int_str n = Raise (ValueError str_limit_message)"
  by (simp add: int_str_def)

text \<open>The product of the \<open>k\<close> factors after \<open>m\<close> is at least \<open>(m + 1)\<^sup>k\<close>.\<close>

lemma fact_lower: "fact m * Suc m ^ k \<le> (fact (m + k) :: nat)"
proof (induction k)
  case 0
  show ?case by simp
next
  case (Suc k)
  have "fact m * Suc m ^ Suc k = Suc m * (fact m * Suc m ^ k)"
    by (simp only: power_Suc mult.left_commute)
  also have "\<dots> \<le> Suc (m + k) * fact (m + k)"
    using Suc.IH by (intro mult_mono) simp_all
  also have "\<dots> = fact (m + Suc k)" by simp
  finally show ?case .
qed

lemma power_le_fact:
  assumes "(b::nat) \<le> Suc m"
  shows "b ^ k \<le> fact (m + k)"
proof -
  have "b ^ k \<le> Suc m ^ k" using assms by (intro power_mono) simp_all
  also have "\<dots> = 1 * Suc m ^ k" by (simp only: mult_1)
  also have "\<dots> \<le> fact m * Suc m ^ k" by (rule mult_le_mono1) (rule fact_ge_1)
  also have "\<dots> \<le> fact (m + k)" by (rule fact_lower)
  finally show ?thesis .
qed

lemma fact_3000_large: "(10::int) ^ max_str_digits \<le> \<bar>fact 3000\<bar>"
proof -
  have "(10::nat) ^ max_str_digits \<le> 10 ^ (3 * 2000)"
    by (rule power_increasing) (simp_all add: max_str_digits_def)
  also have "(10::nat) ^ (3 * 2000) = (10 ^ 3) ^ 2000" by (rule power_mult)
  also have "\<dots> \<le> fact (1000 + 2000)" by (rule power_le_fact) simp
  finally have "(10::nat) ^ max_str_digits \<le> fact 3000" by simp
  then have "int (10 ^ max_str_digits) \<le> int (fact 3000)" by (simp only: of_nat_le_iff)
  then have "(10::int) ^ max_str_digits \<le> fact 3000"
    by (simp only: of_nat_power of_nat_numeral of_nat_fact)
  moreover have "(0::int) \<le> fact 3000" by (rule fact_ge_zero)
  ultimately show ?thesis by (simp only: abs_of_nonneg)
qed

text \<open>
  C6. An int result of more than 4300 digits is not rendered: \<open>_format_result\<close> raises the
  interpreter's \<open>ValueError\<close>. \<open>evaluate("10**4300")\<close> and \<open>evaluate("fact(3000)")\<close> append
  the value to the history and then return the text of that error, not the decimal text
  of the value. A smaller factorial, \<open>fact(25)\<close>, is rendered digit by digit.
\<close>

theorem large_integer_is_not_rendered:
  "format_result fresh (VInt (10 ^ 4300))
     = Raise (ValueError ''Exceeds the limit (4300 digits) for integer string conversion; use sys.set_int_max_str_digits() to increase the limit'')
   \<and> evaluate fresh ''10**4300''
     = Some (''Exceeds the limit (4300 digits) for integer string conversion; use sys.set_int_max_str_digits() to increase the limit'',
             fresh\<lparr>history := [(''10**4300'', VInt (10 ^ 4300))]\<rparr>)
   \<and> evaluate fresh ''fact(3000)''
     = Some (''Exceeds the limit (4300 digits) for integer string conversion; use sys.set_int_max_str_digits() to increase the limit'',
             fresh\<lparr>history := [(''fact(3000)'', VInt (fact 3000))]\<rparr>)
   \<and> evaluate fresh ''fact(25)''
     = Some (''15511210043330985984000000'',
             fresh\<lparr>history := [(''fact(25)'', VInt 15511210043330985984000000)]\<rparr>)"
proof -
  have "(10::int) ^ max_str_digits \<le> \<bar>10 ^ 4300\<bar>"
    by (simp add: max_str_digits_def del: power_numeral)
  then have s: "int_str (10 ^ 4300) = Raise (ValueError str_limit_message)"
    by (rule int_str_limit)
  have e1: "evaluate fresh ''10**4300''
     = Some (str_limit_message, fresh\<lparr>history := [(''10**4300'', VInt (10 ^ 4300))]\<rparr>)"
    by (simp add: evaluate_def pre_big parse_big run_def py_binop_def int_binop_def
        format_result_def py_str_def s fresh_def del: power_numeral)
  have w: "is_integer 3000" "py_trunc 3000 = 3000" by (simp_all add: is_integer_def py_trunc_def)
  have f: "calc_fact (VInt 3000) = Ok (VInt (fact 3000))"
    by (simp add: calc_fact_def bind_res_def w)
  have t: "int_str (fact 3000) = Raise (ValueError str_limit_message)"
    using fact_3000_large by (rule int_str_limit)
  have e2: "evaluate fresh ''fact(3000)''
     = Some (str_limit_message, fresh\<lparr>history := [(''fact(3000)'', VInt (fact 3000))]\<rparr>)"
    by (simp add: evaluate_def pre_fact_big parse_fact_big run_def safe_env_names call_value_def
        call_method_def f format_result_def py_str_def t fresh_def)
  have e0: "format_result fresh (VInt (10 ^ 4300)) = Raise (ValueError str_limit_message)"
    by (simp add: format_result_def py_str_def s del: power_numeral)
  have w25: "is_integer 25" "py_trunc 25 = 25" by (simp_all add: is_integer_def py_trunc_def)
  have f25: "calc_fact (VInt 25) = Ok (VInt 15511210043330985984000000)"
    by (simp add: calc_fact_def bind_res_def w25 fact_numeral)
  have "(10::int) ^ 40 \<le> 10 ^ max_str_digits"
    by (rule power_increasing) (simp_all add: max_str_digits_def)
  then have "\<not> 10 ^ max_str_digits \<le> \<bar>15511210043330985984000000 :: int\<bar>" by simp
  then have t25: "int_str 15511210043330985984000000 = Ok ''15511210043330985984000000''"
    by (simp add: int_str_def render_examples(6))
  have e3: "evaluate fresh ''fact(25)''
     = Some (''15511210043330985984000000'',
             fresh\<lparr>history := [(''fact(25)'', VInt 15511210043330985984000000)]\<rparr>)"
    by (simp add: evaluate_def pre_fact_25 parse_fact_25 run_def safe_env_names call_value_def
        call_method_def f25 format_result_def py_str_def t25 fresh_def)
  from e0 e1 e2 e3 show ?thesis unfolding str_limit_message_def by (intro conjI)
qed
end
